theory Spec2Isabelle
  imports Complex_Main "HOL-Library.Char_ord" "HOL-Library.List_Lexorder"
    "HOL-Library.Product_Lexorder"
begin

section \<open>Floating-point values as the analysis code sees them\<close>

text \<open>
  The statistics of \<^verbatim>\<open>analysis_helper.py\<close> are numpy/Python doubles. A double is modelled
  as a finite real or one of the three special values of IEEE 754. Finite arithmetic is
  exact (rounding and overflow are left out); the special values follow IEEE 754 as numpy
  implements it: no operation traps, a division by zero gives an infinity or NaN, NaN
  propagates, and every ordered comparison and every equality with NaN is false.
  The sign of zero is not tracked (a zero divisor counts as +0.0, which is what
  \<^verbatim>\<open>math.sqrt\<close> returns for a zero argument).
\<close>

datatype pyfloat = Num real | PosInf | NegInf | NaN

datatype error = ValueError

fun pf_gt :: "pyfloat \<Rightarrow> pyfloat \<Rightarrow> bool" where
  "pf_gt NaN _ = False"
| "pf_gt _ NaN = False"
| "pf_gt (Num a) (Num b) = (a > b)"
| "pf_gt PosInf PosInf = False"
| "pf_gt PosInf _ = True"
| "pf_gt NegInf _ = False"
| "pf_gt (Num a) NegInf = True"
| "pf_gt (Num a) PosInf = False"

fun pf_le :: "pyfloat \<Rightarrow> pyfloat \<Rightarrow> bool" where
  "pf_le NaN _ = False"
| "pf_le _ NaN = False"
| "pf_le (Num a) (Num b) = (a \<le> b)"
| "pf_le NegInf _ = True"
| "pf_le PosInf PosInf = True"
| "pf_le PosInf _ = False"
| "pf_le (Num a) NegInf = False"
| "pf_le (Num a) PosInf = True"

fun pf_eq :: "pyfloat \<Rightarrow> pyfloat \<Rightarrow> bool" where
  "pf_eq NaN _ = False"
| "pf_eq _ NaN = False"
| "pf_eq (Num a) (Num b) = (a = b)"
| "pf_eq PosInf PosInf = True"
| "pf_eq NegInf NegInf = True"
| "pf_eq _ _ = False"

fun pf_neg :: "pyfloat \<Rightarrow> pyfloat" where
  "pf_neg (Num a) = Num (- a)"
| "pf_neg PosInf = NegInf"
| "pf_neg NegInf = PosInf"
| "pf_neg NaN = NaN"

fun pf_abs :: "pyfloat \<Rightarrow> pyfloat" where
  "pf_abs (Num a) = Num \<bar>a\<bar>"
| "pf_abs PosInf = PosInf"
| "pf_abs NegInf = PosInf"
| "pf_abs NaN = NaN"

fun pf_add :: "pyfloat \<Rightarrow> pyfloat \<Rightarrow> pyfloat" where
  "pf_add NaN _ = NaN"
| "pf_add _ NaN = NaN"
| "pf_add (Num a) (Num b) = Num (a + b)"
| "pf_add PosInf NegInf = NaN"
| "pf_add NegInf PosInf = NaN"
| "pf_add PosInf _ = PosInf"
| "pf_add NegInf _ = NegInf"
| "pf_add (Num a) PosInf = PosInf"
| "pf_add (Num a) NegInf = NegInf"

definition pf_sub :: "pyfloat \<Rightarrow> pyfloat \<Rightarrow> pyfloat" where
  "pf_sub a b = pf_add a (pf_neg b)"

text \<open>The sign of an infinity scaled by a finite factor; a zero factor gives NaN.\<close>

definition pf_scale_inf :: "bool \<Rightarrow> real \<Rightarrow> pyfloat" where
  "pf_scale_inf positive a =
     (if a = 0 then NaN else if (a > 0) = positive then PosInf else NegInf)"

fun pf_mul :: "pyfloat \<Rightarrow> pyfloat \<Rightarrow> pyfloat" where
  "pf_mul NaN _ = NaN"
| "pf_mul _ NaN = NaN"
| "pf_mul (Num a) (Num b) = Num (a * b)"
| "pf_mul PosInf PosInf = PosInf"
| "pf_mul NegInf NegInf = PosInf"
| "pf_mul PosInf NegInf = NegInf"
| "pf_mul NegInf PosInf = NegInf"
| "pf_mul PosInf (Num a) = pf_scale_inf True a"
| "pf_mul NegInf (Num a) = pf_scale_inf False a"
| "pf_mul (Num a) PosInf = pf_scale_inf True a"
| "pf_mul (Num a) NegInf = pf_scale_inf False a"

text \<open>
  numpy's true division: \<^verbatim>\<open>x / 0.0\<close> is \<^verbatim>\<open>inf\<close>, \<^verbatim>\<open>-inf\<close> or (for \<^verbatim>\<open>0.0 / 0.0\<close>)
  \<^verbatim>\<open>nan\<close>, with a RuntimeWarning and no exception.
\<close>

fun pf_div :: "pyfloat \<Rightarrow> pyfloat \<Rightarrow> pyfloat" where
  "pf_div NaN _ = NaN"
| "pf_div _ NaN = NaN"
| "pf_div (Num a) (Num b) =
     (if b = 0 then (if a = 0 then NaN else if a > 0 then PosInf else NegInf)
      else Num (a / b))"
| "pf_div (Num a) PosInf = Num 0"
| "pf_div (Num a) NegInf = Num 0"
| "pf_div PosInf (Num b) = (if b \<ge> 0 then PosInf else NegInf)"
| "pf_div NegInf (Num b) = (if b \<ge> 0 then NegInf else PosInf)"
| "pf_div _ _ = NaN"

text \<open>\<^verbatim>\<open>x ** 2\<close> on a double.\<close>

definition pf_pow2 :: "pyfloat \<Rightarrow> pyfloat" where
  "pf_pow2 x = pf_mul x x"

text \<open>
  \<^verbatim>\<open>math.sqrt\<close>: raises \<^verbatim>\<open>ValueError\<close> (math domain error) on a negative argument,
  returns NaN for NaN and infinity for infinity.
\<close>

fun math_sqrt :: "pyfloat \<Rightarrow> error + pyfloat" where
  "math_sqrt (Num a) = (if a < 0 then Inl ValueError else Inr (Num (sqrt a)))"
| "math_sqrt PosInf = Inr PosInf"
| "math_sqrt NegInf = Inl ValueError"
| "math_sqrt NaN = Inr NaN"

section \<open>pandas Series\<close>

text \<open>
  A numeric Series is a list of cells; \<open>None\<close> is a missing value (pandas stores it as
  NaN). The reductions skip missing values (\<^verbatim>\<open>skipna=True\<close>), \<^verbatim>\<open>std\<close> is the sample
  standard deviation (\<^verbatim>\<open>ddof=1\<close>), which is NaN when fewer than two values are present;
  the mean, minimum and maximum of no values are NaN.

  The sums, quotients and square roots below are those of the real numbers. pandas
  rounds every operation to a double, so its results are these only where rounding
  changes nothing: the samples used as concrete inputs further down are chosen so that
  it does not change the result shown. Elsewhere the two differ in the last bits: for 31
  values of 0.1 the mean
  pandas computes is not the double 0.1 and the standard deviation it computes is about
  \<open>2.8e-17\<close>, not 0.
\<close>

type_synonym series = "real option list"

fun dropna :: "series \<Rightarrow> real list" where
  "dropna [] = []"
| "dropna (None # xs) = dropna xs"
| "dropna (Some x # xs) = x # dropna xs"

definition count :: "series \<Rightarrow> nat" where
  "count s = length (dropna s)"

definition mean :: "series \<Rightarrow> pyfloat" where
  "mean s = (let xs = dropna s in
     if xs = [] then NaN else Num (sum_list xs / real (length xs)))"

definition var :: "series \<Rightarrow> pyfloat" where
  "var s = (let xs = dropna s; n = length xs; m = sum_list xs / real n in
     if n \<le> 1 then NaN
     else Num (sum_list (map (\<lambda>x. (x - m)\<^sup>2) xs) / (real n - 1)))"

definition std :: "series \<Rightarrow> pyfloat" where
  "std s = (case var s of Num v \<Rightarrow> Num (sqrt v) | other \<Rightarrow> other)"

definition smin :: "series \<Rightarrow> pyfloat" where
  "smin s = (case dropna s of [] \<Rightarrow> NaN | x # xs \<Rightarrow> Num (fold min xs x))"

definition smax :: "series \<Rightarrow> pyfloat" where
  "smax s = (case dropna s of [] \<Rightarrow> NaN | x # xs \<Rightarrow> Num (fold max xs x))"

section \<open>Library functions the code calls\<close>

text \<open>
  The Python built-ins behind \<^verbatim>\<open>num_to_string\<close> and the four \<^verbatim>\<open>scipy.stats\<close> tests are
  not part of the repository: they are taken as parameters, so every theorem holds
  for whatever they compute. Each test returns its statistic and its p-value;
  \<^verbatim>\<open>tukey_hsd\<close> returns matrices indexed by the positions of two samples.
  The last parameter belongs to the sort behind \<^verbatim>\<open>sort_values\<close>, numpy's quicksort,
  which is not stable: \<open>tie_rank keys i\<close> is the rank it gives to position \<open>i\<close> among the
  positions that hold an equal key.
\<close>

record tukey_result =
  statistic :: "nat \<Rightarrow> nat \<Rightarrow> pyfloat"
  pvalue :: "nat \<Rightarrow> nat \<Rightarrow> pyfloat"
  ci_low :: "nat \<Rightarrow> nat \<Rightarrow> pyfloat"
  ci_high :: "nat \<Rightarrow> nat \<Rightarrow> pyfloat"

record pylib =
  round_ndigits :: "pyfloat \<Rightarrow> int \<Rightarrow> pyfloat"
  format_comma :: "pyfloat \<Rightarrow> string"
  f_oneway :: "series list \<Rightarrow> pyfloat \<times> pyfloat"
  kruskal :: "series list \<Rightarrow> pyfloat \<times> pyfloat"
  tukey_hsd :: "series list \<Rightarrow> tukey_result"
  ttest_ind :: "series \<Rightarrow> series \<Rightarrow> pyfloat \<times> pyfloat"
  tie_rank :: "string list \<Rightarrow> nat \<Rightarrow> nat"

text \<open>\<^verbatim>\<open>utilities.num_to_string\<close>: \<^verbatim>\<open>"{:,}".format(round(number, 3))\<close>.\<close>

definition num_to_string :: "pylib \<Rightarrow> pyfloat \<Rightarrow> string" where
  "num_to_string lib number = format_comma lib (round_ndigits lib number 3)"

section \<open>The effect size calculator\<close>

text \<open>Lines 172 to 182 of \<^verbatim>\<open>_calc_cohens_d\<close>: the chain that picks the label.\<close>

definition effect_size_label :: "pyfloat \<Rightarrow> string" where
  "effect_size_label d =
     (let effect_size = ''Very small'' in
      if pf_gt d (Num 0.01) \<and> pf_le d (Num 0.2) then ''Small''
      else if pf_le d (Num 0.5) then ''Medium''
      else if pf_le d (Num 0.8) then ''Large''
      else if pf_le d (Num 1.20) then ''Very large''
      else ''Huge'')"

text \<open>Line 169: the argument of \<^verbatim>\<open>math.sqrt\<close>, the pooled variance.\<close>

definition pooled_variance :: "series \<Rightarrow> series \<Rightarrow> pyfloat" where
  "pooled_variance sample_1 sample_2 =
     (let n1 = int (count sample_1); s1 = std sample_1;
          n2 = int (count sample_2); s2 = std sample_2
      in pf_div (pf_add (pf_mul (Num (of_int (n1 - 1))) (pf_pow2 s1))
                        (pf_mul (Num (of_int (n2 - 1))) (pf_pow2 s2)))
                (Num (of_int (n1 + n2 - 2))))"

text \<open>Lines 161 to 170: the standardized difference \<open>d\<close>, or the exception raised on the way.\<close>

definition cohens_d_value :: "series \<Rightarrow> series \<Rightarrow> error + pyfloat" where
  "cohens_d_value sample_1 sample_2 =
     (let m1 = mean sample_1; m2 = mean sample_2 in
      case math_sqrt (pooled_variance sample_1 sample_2) of
        Inl e \<Rightarrow> Inl e
      | Inr s \<Rightarrow> Inr (pf_div (pf_abs (pf_sub m1 m2)) s))"

text \<open>\<^verbatim>\<open>_calc_cohens_d\<close>: the formatted value and the label.\<close>

definition calc_cohens_d :: "pylib \<Rightarrow> series \<Rightarrow> series \<Rightarrow> error + string \<times> string" where
  "calc_cohens_d lib sample_1 sample_2 =
     (case cohens_d_value sample_1 sample_2 of
        Inl e \<Rightarrow> Inl e
      | Inr d \<Rightarrow> Inr (num_to_string lib d, effect_size_label d))"

section \<open>The students table\<close>

text \<open>
  A row of the \<^verbatim>\<open>students\<close> DataFrame: the key column, which is never null, and the
  demographic and measure columns by name, \<open>None\<close> for a null cell. Labels are of any
  ordered type (\<^verbatim>\<open>groupby\<close> sorts its keys).
\<close>

record 'l student =
  StudentKey :: int
  demographics :: "string \<Rightarrow> 'l option"
  measures :: "string \<Rightarrow> real option"

definition MAGIC_NUMBER :: nat where
  "MAGIC_NUMBER = 30"

text \<open>\<^verbatim>\<open>students[measure_label].notna()\<close>, row by row.\<close>

definition notna :: "string \<Rightarrow> 'l student \<Rightarrow> bool" where
  "notna measure_label r = (measures r measure_label \<noteq> None)"

text \<open>
  The keys of \<^verbatim>\<open>students[not_null].groupby(by=[demographic], as_index=False)\<close>: the
  distinct non-null labels of the rows that have the measure, in sorted order (rows with
  a null label belong to no group).
\<close>

definition group_keys :: "'l::linorder student list \<Rightarrow> string \<Rightarrow> string \<Rightarrow> 'l list" where
  "group_keys students demographic measure_label =
     sort (remdups (List.map_filter (\<lambda>r. demographics r demographic)
       (filter (notna measure_label) students)))"

text \<open>
  The \<^verbatim>\<open>StudentKey\<close> count of each group: one entry per key, with the number of rows of
  the group (its \<^verbatim>\<open>var\<close> of the measure, which \<^verbatim>\<open>run_anova\<close> also aggregates, is
  never read and is left out).
\<close>

definition group_count :: "'l::linorder student list \<Rightarrow> string \<Rightarrow> string \<Rightarrow> ('l \<times> nat) list" where
  "group_count students demographic measure_label =
     map (\<lambda>label.
       (label, length (filter (\<lambda>r. demographics r demographic = Some label)
                         (filter (notna measure_label) students))))
       (group_keys students demographic measure_label)"

text \<open>\<^verbatim>\<open>students[(students[demographic] == label) & not_null][measure_label]\<close>.\<close>

definition sample :: "'l student list \<Rightarrow> string \<Rightarrow> string \<Rightarrow> 'l \<Rightarrow> series" where
  "sample students demographic measure_label label =
     map (\<lambda>r. measures r measure_label)
       (filter (\<lambda>r. demographics r demographic = Some label \<and> notna measure_label r) students)"

section \<open>What the engines show and call\<close>

text \<open>
  A cell of a table that is displayed: a label, a string, or the pair of strings that
  \<^verbatim>\<open>_calc_cohens_d\<close> returns.
\<close>

datatype 'l cell = Label 'l | Str string | Tuple string string

record 'l dataframe =
  columns :: "string list"
  data :: "'l cell list list"

text \<open>
  The effects of an engine, in program order: each call of a \<^verbatim>\<open>log_*\<close> function (with the
  values its message is formatted from) and each call of a \<^verbatim>\<open>scipy.stats\<close> test (with
  the samples it receives, each next to the label it belongs to).
\<close>

datatype 'l event =
    Error_cannot_run_anova
  | Warning_anova_excluded "'l list"
  | Call_f_oneway "('l \<times> series) list"
  | Warning_trying_kruskal
  | Call_kruskal "('l \<times> series) list"
  | Message_hypothesis string string
  | Info_upheld string
  | Error_rejected string
  | Call_tukey_hsd "('l \<times> series) list"
  | Error_cannot_run_t_test "'l list"
  | Call_ttest_ind "'l \<times> series" "'l \<times> series"
  | Warning_effect_size string string
  | Log_dataframe "'l dataframe"

section \<open>The multi-group engine\<close>

text \<open>Lines 43 to 53 and 73: the labels whose group has more than \<open>MAGIC_NUMBER\<close> rows.\<close>

definition anova_labels :: "'l::linorder student list \<Rightarrow> string \<Rightarrow> string \<Rightarrow> 'l list" where
  "anova_labels students demographic measure_label =
     (let variances_all = group_count students demographic measure_label;
          included = filter (\<lambda>(label, n). n > MAGIC_NUMBER) variances_all
      in map fst included)"

text \<open>Lines 75 to 78: the dictionary from each label to its sample, in the order of the labels.\<close>

definition stat_by_demographic ::
  "'l student list \<Rightarrow> string \<Rightarrow> string \<Rightarrow> 'l list \<Rightarrow> ('l \<times> series) list" where
  "stat_by_demographic students demographic measure_label labels =
     map (\<lambda>label. (label, sample students demographic measure_label label)) labels"

text \<open>
  Lines 80 to 87: the omnibus p-value and the events of computing it. \<^verbatim>\<open>NaN\<close> is numpy's
  \<^verbatim>\<open>nan\<close>, and \<^verbatim>\<open>p_value == NaN\<close> is the equality of doubles.
\<close>

definition omnibus :: "pylib \<Rightarrow> ('l \<times> series) list \<Rightarrow> 'l event list \<times> pyfloat" where
  "omnibus lib sbd =
     (let data = map snd sbd;
          p_value = snd (f_oneway lib data)
      in if pf_eq p_value NaN
         then ([Call_f_oneway sbd, Warning_trying_kruskal, Call_kruskal sbd],
               snd (kruskal lib data))
         else ([Call_f_oneway sbd], p_value))"

text \<open>
  Lines 118 to 129: the two loops over the positions of the labels. Every label looked up
  in the dictionary is one of its keys.
\<close>

fun tukey_inner ::
  "pylib \<Rightarrow> 'l list \<Rightarrow> ('l \<times> series) list \<Rightarrow> tukey_result \<Rightarrow> nat \<Rightarrow> nat list \<Rightarrow>
   'l cell list list \<Rightarrow> error + 'l cell list list" where
  "tukey_inner lib labels sbd tukey i [] rows = Inr rows"
| "tukey_inner lib labels sbd tukey i (j # js) rows =
     (if i \<ge> j then tukey_inner lib labels sbd tukey i js rows
      else
        let stat = num_to_string lib (statistic tukey i j);
            p = num_to_string lib (pvalue tukey i j);
            low = num_to_string lib (ci_low tukey i j);
            high = num_to_string lib (ci_high tukey i j)
        in case calc_cohens_d lib (the (map_of sbd (labels ! i))) (the (map_of sbd (labels ! j))) of
             Inl e \<Rightarrow> Inl e
           | Inr effect_size \<Rightarrow>
               tukey_inner lib labels sbd tukey i js
                 (rows @ [[Label (labels ! i), Label (labels ! j), Str stat, Str p, Str low,
                           Str high, Tuple (fst effect_size) (snd effect_size)]]))"

fun tukey_outer ::
  "pylib \<Rightarrow> 'l list \<Rightarrow> ('l \<times> series) list \<Rightarrow> tukey_result \<Rightarrow> nat list \<Rightarrow>
   'l cell list list \<Rightarrow> error + 'l cell list list" where
  "tukey_outer lib labels sbd tukey [] rows = Inr rows"
| "tukey_outer lib labels sbd tukey (i # is) rows =
     (case tukey_inner lib labels sbd tukey i [0..<length labels] rows of
        Inl e \<Rightarrow> Inl e
      | Inr rows' \<Rightarrow> tukey_outer lib labels sbd tukey is rows')"

text \<open>
  \<^verbatim>\<open>sort_values(by=[name])\<close> on a column of strings: the rows in ascending order of the
  string in that column (Python compares strings character by character). Among rows
  with equal strings the order is the one the library's sort produces, \<open>tie_rank\<close>;
  whatever that is, the result is a rearrangement of the rows in ascending order of the
  column.
\<close>

fun str_key :: "'l cell \<Rightarrow> string" where
  "str_key (Str s) = s"
| "str_key _ = []"

fun index_of :: "'a \<Rightarrow> 'a list \<Rightarrow> nat" where
  "index_of x [] = 0"
| "index_of x (y # ys) = (if x = y then 0 else Suc (index_of x ys))"

definition sort_values :: "pylib \<Rightarrow> string \<Rightarrow> 'l dataframe \<Rightarrow> 'l dataframe" where
  "sort_values lib by df =
     (let keys = map (\<lambda>row. str_key (row ! index_of by (columns df))) (data df);
          ranks = map (tie_rank lib keys) [0..<length keys]
      in df\<lparr>data := map snd (sort_key fst (zip (zip keys ranks) (data df)))\<rparr>)"

text \<open>Lines 101 to 133: the post-hoc table.\<close>

definition tukey_output ::
  "pylib \<Rightarrow> 'l list \<Rightarrow> ('l \<times> series) list \<Rightarrow> error + 'l dataframe" where
  "tukey_output lib labels sbd =
     (let tukey = tukey_hsd lib (map snd sbd);
          columns = [''Label 1'', ''Label 2'', ''Stat'', ''p Value'', ''Low CI'', ''High CI'',
                     ''Effect Size'']
      in case tukey_outer lib labels sbd tukey [0..<length labels] [] of
           Inl e \<Rightarrow> Inl e
         | Inr rows \<Rightarrow> Inr (sort_values lib ''p Value'' \<lparr>columns = columns, data = rows\<rparr>))"

text \<open>Lines 62 to 70: the warning that names the labels left out, when there are any.\<close>

definition excluded_warning :: "'l::linorder student list \<Rightarrow> string \<Rightarrow> string \<Rightarrow> 'l event list" where
  "excluded_warning students demographic measure_label =
     (let variances_all = group_count students demographic measure_label;
          excluded = map fst (filter (\<lambda>(label, n). n \<le> MAGIC_NUMBER) variances_all)
      in if length excluded > 0 then [Warning_anova_excluded excluded] else [])"

text \<open>\<^verbatim>\<open>run_anova\<close>: the events and the value returned, or the exception raised.\<close>

definition run_anova ::
  "pylib \<Rightarrow> 'l::linorder student list \<Rightarrow> string \<Rightarrow> string \<Rightarrow> error + 'l event list \<times> bool" where
  "run_anova lib students demographic measure_label =
     (let labels = anova_labels students demographic measure_label
      in if length labels < 2 then Inr ([Error_cannot_run_anova], False)
         else
           let warned = excluded_warning students demographic measure_label;
               sbd = stat_by_demographic students demographic measure_label labels;
               (tested, p_value) = omnibus lib sbd;
               hypothesis = [Message_hypothesis measure_label demographic]
           in if pf_gt p_value (Num 0.05)
              then Inr (warned @ tested @ hypothesis @
                        [Info_upheld (num_to_string lib p_value)], True)
              else
                case tukey_output lib labels sbd of
                  Inl e \<Rightarrow> Inl e
                | Inr table \<Rightarrow>
                    Inr (warned @ tested @ hypothesis @
                         [Error_rejected (num_to_string lib p_value), Call_tukey_hsd sbd,
                          Log_dataframe table], True))"

section \<open>The two-group engine\<close>

text \<open>Lines 209 to 214: the labels whose group has more than \<open>MAGIC_NUMBER\<close> rows.\<close>

definition categories :: "'l::linorder student list \<Rightarrow> string \<Rightarrow> string \<Rightarrow> 'l list" where
  "categories students demographic measure_label =
     map fst (filter (\<lambda>(label, n). n > MAGIC_NUMBER)
       (group_count students demographic measure_label))"

text \<open>
  \<^verbatim>\<open>Series.describe()\<close>, as far as the code reads it (the quartiles are left out).
\<close>

definition describe :: "series \<Rightarrow> string \<rightharpoonup> pyfloat" where
  "describe s =
     [''count'' \<mapsto> Num (real (count s)), ''mean'' \<mapsto> mean s, ''std'' \<mapsto> std s,
      ''min'' \<mapsto> smin s, ''max'' \<mapsto> smax s]"

text \<open>Lines 245 to 267: the table of descriptive statistics.\<close>

definition stats_table :: "pylib \<Rightarrow> 'l \<Rightarrow> series \<Rightarrow> 'l \<Rightarrow> series \<Rightarrow> 'l dataframe" where
  "stats_table lib category_0 cat_0 category_1 cat_1 =
     (let cat_0_stats = describe cat_0;
          cat_1_stats = describe cat_1
      in \<lparr>columns = [''Label'', ''Count'', ''Mean'', ''StD'', ''Min'', ''Max''],
          data =
            [[Label category_0,
              Str (num_to_string lib (the (cat_0_stats ''count''))),
              Str (num_to_string lib (the (cat_0_stats ''mean''))),
              Str (num_to_string lib (the (cat_0_stats ''std''))),
              Str (num_to_string lib (the (cat_0_stats ''max''))),
              Str (num_to_string lib (the (cat_0_stats ''min'')))],
             [Label category_1,
              Str (num_to_string lib (the (cat_1_stats ''count''))),
              Str (num_to_string lib (the (cat_1_stats ''mean''))),
              Str (num_to_string lib (the (cat_1_stats ''std''))),
              Str (num_to_string lib (the (cat_1_stats ''max''))),
              Str (num_to_string lib (the (cat_1_stats ''min'')))]]\<rparr>)"

text \<open>\<^verbatim>\<open>run_t_test\<close>: the events and the value returned, or the exception raised.\<close>

definition run_t_test ::
  "pylib \<Rightarrow> 'l::linorder student list \<Rightarrow> string \<Rightarrow> string \<Rightarrow> error + 'l event list \<times> bool" where
  "run_t_test lib students demographic measure_label =
     (let group_count = group_count students demographic measure_label;
          categories = categories students demographic measure_label
      in if length categories < 2
         then Inr ([Error_cannot_run_t_test
                      (map fst (filter (\<lambda>(label, n). n \<le> MAGIC_NUMBER) group_count))], False)
         else
           let cat_0 = sample students demographic measure_label (categories ! 0);
               cat_1 = sample students demographic measure_label (categories ! 1);
               p_value = snd (ttest_ind lib cat_0 cat_1);
               tested = [Call_ttest_ind (categories ! 0, cat_0) (categories ! 1, cat_1),
                         Message_hypothesis measure_label demographic];
               stats = stats_table lib (categories ! 0) cat_0 (categories ! 1) cat_1
           in if pf_gt p_value (Num 0.05)
              then Inr (tested @ [Info_upheld (num_to_string lib p_value),
                                  Log_dataframe stats], True)
              else
                case calc_cohens_d lib cat_0 cat_1 of
                  Inl e \<Rightarrow> Inl e
                | Inr cohens_d \<Rightarrow>
                    Inr (tested @ [Error_rejected (num_to_string lib p_value),
                                   Warning_effect_size (fst cohens_d) (snd cohens_d),
                                   Log_dataframe stats], True))"

section \<open>Reading the effects\<close>

text \<open>\<^verbatim>\<open>df[name]\<close>: the cells of a column, from the first row to the last.\<close>

definition column :: "string \<Rightarrow> 'l dataframe \<Rightarrow> 'l cell list" where
  "column name df = map (\<lambda>row. row ! index_of name (columns df)) (data df)"

text \<open>The labels whose samples a test received.\<close>

fun tested_labels :: "'l event \<Rightarrow> 'l list" where
  "tested_labels (Call_f_oneway sbd) = map fst sbd"
| "tested_labels (Call_kruskal sbd) = map fst sbd"
| "tested_labels (Call_tukey_hsd sbd) = map fst sbd"
| "tested_labels (Call_ttest_ind a b) = [fst a, fst b]"
| "tested_labels _ = []"

definition participants :: "'l event list \<Rightarrow> 'l set" where
  "participants evs = set (concat (map tested_labels evs))"

section \<open>Concrete inputs\<close>

text \<open>
  A library instance for running the engines on concrete tables: the omnibus test and
  the two-sample test return the p-value \<open>p\<close>, the post-hoc test returns fixed
  p-values, and numbers are printed as Python prints them for the few values listed
  (each has at most three decimals, so rounding leaves it as it is). Rows with equal
  keys keep their order, as in numpy's quicksort on up to 17 elements, which is an
  insertion sort.
\<close>

definition demo_format :: "pyfloat \<Rightarrow> string" where
  "demo_format x =
     (if x = NaN then ''nan'' else if x = PosInf then ''inf''
      else if x = Num 0 then ''0.0'' else if x = Num 0.001 then ''0.001''
      else if x = Num 0.02 then ''0.02'' else if x = Num 0.05 then ''0.05''
      else if x = Num 0.5 then ''0.5'' else if x = Num 1 then ''1.0''
      else if x = Num 1.5 then ''1.5'' else if x = Num 2 then ''2.0''
      else if x = Num 2.5 then ''2.5'' else if x = Num 3 then ''3.0''
      else if x = Num 31 then ''31.0'' else if x = Num 33 then ''33.0''
      else ''?'')"

definition demo_tukey :: tukey_result where
  "demo_tukey =
     \<lparr>statistic = (\<lambda>i j. Num 0),
      pvalue = (\<lambda>i j. if i + j = 1 then Num 0.5 else if i + j = 2 then Num 0.02
                        else Num 0.001),
      ci_low = (\<lambda>i j. Num 0),
      ci_high = (\<lambda>i j. Num 0)\<rparr>"

definition demo_lib :: "pyfloat \<Rightarrow> pylib" where
  "demo_lib p =
     \<lparr>round_ndigits = (\<lambda>x ndigits. x),
      format_comma = demo_format,
      f_oneway = (\<lambda>data. (Num 0, p)),
      kruskal = (\<lambda>data. (Num 0, Num 0.5)),
      tukey_hsd = (\<lambda>data. demo_tukey),
      ttest_ind = (\<lambda>a b. (Num 0, p)),
      tie_rank = (\<lambda>keys i. i)\<rparr>"




text \<open>
  \<open>n\<close> students with one label in every demographic column, keys \<open>first\<close> onwards; the
  student at position \<open>k\<close> has the measure \<open>value k\<close> in every measure column.
\<close>

definition cohort :: "'l \<Rightarrow> nat \<Rightarrow> nat \<Rightarrow> (nat \<Rightarrow> real option) \<Rightarrow> 'l student list" where
  "cohort label first n value =
     map (\<lambda>k. \<lparr>StudentKey = int k, demographics = (\<lambda>c. Some label),
               measures = (\<lambda>c. value k)\<rparr>) [first..<first + n]"

text \<open>
  33 students with one label: sixteen with the measure \<open>c\<close>, sixteen with \<open>c + 2\<close> and
  one with \<open>c + 1\<close>, so that the group has mean \<open>c + 1\<close>, standard deviation 1, minimum
  \<open>c\<close> and maximum \<open>c + 2\<close>; and the sample of such a group.
\<close>

definition spread_cohort :: "'l \<Rightarrow> nat \<Rightarrow> real \<Rightarrow> 'l student list" where
  "spread_cohort label first c =
     cohort label first 16 (\<lambda>k. Some c) @
     cohort label (first + 16) 16 (\<lambda>k. Some (c + 2)) @
     cohort label (first + 32) 1 (\<lambda>k. Some (c + 1))"

definition spread_sample :: "real \<Rightarrow> series" where
  "spread_sample c = replicate 16 (Some c) @ replicate 16 (Some (c + 2)) @ [Some (c + 1)]"

text \<open>Two groups of 33 whose means are half a standard deviation apart.\<close>

definition students_2 :: "string student list" where
  "students_2 = spread_cohort ''F'' 0 0 @ spread_cohort ''M'' 33 0.5"

text \<open>A third group of 33, one standard deviation above the first.\<close>

definition students_3 :: "string student list" where
  "students_3 = students_2 @ spread_cohort ''X'' 66 1"

text \<open>
  A label with 35 students of whom 30 have the measure, and a label with 31 students who
  all have it; and the same after the two groups of 33.
\<close>

definition one_eligible :: "string student list" where
  "one_eligible =
     cohort ''N'' 66 30 (\<lambda>k. Some 1) @ cohort ''N'' 96 5 (\<lambda>k. None) @
     cohort ''X'' 101 31 (\<lambda>k. Some 1)"

definition students_4 :: "string student list" where
  "students_4 = students_2 @ one_eligible"

text \<open>Two groups of 31 in which every student has the same measure.\<close>

definition constant_groups :: "string student list" where
  "constant_groups = cohort ''F'' 0 31 (\<lambda>k. Some 1) @ cohort ''M'' 31 31 (\<lambda>k. Some 1)"

section \<open>Properties of the effect size calculator\<close>

lemma pf_eq_NaN: "pf_eq x NaN = False"
  by (cases x) simp_all

lemma effect_size_label_Num:
  "effect_size_label (Num x) =
     (if 0.01 < x \<and> x \<le> 0.2 then ''Small''
      else if x \<le> 0.5 then ''Medium''
      else if x \<le> 0.8 then ''Large''
      else if x \<le> 1.2 then ''Very large''
      else ''Huge'')"
  by (simp add: effect_size_label_def)

lemma effect_size_label_NaN: "effect_size_label NaN = ''Huge''"
  by (simp add: effect_size_label_def)

lemma effect_size_label_PosInf: "effect_size_label PosInf = ''Huge''"
  by (simp add: effect_size_label_def)

lemma effect_size_label_never_very_small: "effect_size_label d \<noteq> ''Very small''"
  by (cases d) (simp_all add: effect_size_label_def)

lemma var_small: "count s \<le> 1 \<Longrightarrow> var s = NaN"
  by (simp add: var_def count_def Let_def)

lemma var_large: "2 \<le> count s \<Longrightarrow> \<exists>v\<ge>0. var s = Num v"
proof -
  assume n: "2 \<le> count s"
  let ?xs = "dropna s"
  let ?m = "sum_list ?xs / real (length ?xs)"
  have "0 \<le> sum_list (map (\<lambda>x. (x - ?m)\<^sup>2) ?xs)"
    by (rule sum_list_nonneg) auto
  moreover have "0 < real (length ?xs) - 1"
    using n by (simp add: count_def)
  ultimately have "0 \<le> sum_list (map (\<lambda>x. (x - ?m)\<^sup>2) ?xs) / (real (length ?xs) - 1)"
    by simp
  moreover have "var s = Num (sum_list (map (\<lambda>x. (x - ?m)\<^sup>2) ?xs) / (real (length ?xs) - 1))"
    using n by (simp add: var_def count_def Let_def)
  ultimately show ?thesis by blast
qed

lemma std_small: "count s \<le> 1 \<Longrightarrow> std s = NaN"
  by (simp add: std_def var_small)

lemma std_large: "2 \<le> count s \<Longrightarrow> \<exists>r\<ge>0. std s = Num r"
proof -
  assume "2 \<le> count s"
  then obtain v where "0 \<le> v" "var s = Num v"
    using var_large by blast
  then have "std s = Num (sqrt v)" "0 \<le> sqrt v"
    by (simp_all add: std_def)
  then show ?thesis by blast
qed

lemma pooled_variance_small:
  assumes "count s1 < 2 \<or> count s2 < 2"
  shows "pooled_variance s1 s2 = NaN"
proof -
  have nan_l: "pf_add (pf_mul a (pf_pow2 NaN)) b = NaN" for a b
    by (cases a) (simp_all add: pf_pow2_def)
  have nan_r: "pf_add b (pf_mul a (pf_pow2 NaN)) = NaN" for a b
    by (cases a; cases b) (simp_all add: pf_pow2_def)
  from assms show ?thesis
  proof
    assume "count s1 < 2"
    then have "std s1 = NaN" by (simp add: std_small)
    then show ?thesis by (simp add: pooled_variance_def Let_def nan_l)
  next
    assume "count s2 < 2"
    then have "std s2 = NaN" by (simp add: std_small)
    then show ?thesis by (simp add: pooled_variance_def Let_def nan_r)
  qed
qed

lemma pooled_variance_large:
  assumes "2 \<le> count s1" "2 \<le> count s2"
  shows "\<exists>r1 r2. std s1 = Num r1 \<and> std s2 = Num r2 \<and>
           pooled_variance s1 s2 =
             Num (((real (count s1) - 1) * (r1 * r1) + (real (count s2) - 1) * (r2 * r2)) /
                  (real (count s1) + real (count s2) - 2)) \<and>
           0 \<le> ((real (count s1) - 1) * (r1 * r1) + (real (count s2) - 1) * (r2 * r2)) /
                  (real (count s1) + real (count s2) - 2)"
proof -
  obtain r1 r2 where r: "std s1 = Num r1" "std s2 = Num r2"
    using assms std_large by blast
  have pos: "0 < real (count s1) + real (count s2) - 2" "0 \<le> real (count s1) - 1" "0 \<le> real (count s2) - 1"
    using assms by simp_all
  have nz: "real (count s1) + real (count s2) \<noteq> 2"
    using pos by simp
  have "pooled_variance s1 s2 =
             Num (((real (count s1) - 1) * (r1 * r1) + (real (count s2) - 1) * (r2 * r2)) /
                  (real (count s1) + real (count s2) - 2))"
    using r nz by (simp add: pooled_variance_def Let_def pf_pow2_def)
  moreover have "0 \<le> ((real (count s1) - 1) * (r1 * r1) + (real (count s2) - 1) * (r2 * r2)) /
                  (real (count s1) + real (count s2) - 2)"
  proof -
    have "0 \<le> (real (count s1) - 1) * (r1 * r1)" "0 \<le> (real (count s2) - 1) * (r2 * r2)"
      using pos by simp_all
    then show ?thesis
      using pos by (intro divide_nonneg_pos add_nonneg_nonneg) simp_all
  qed
  ultimately show ?thesis using r by blast
qed

lemma math_sqrt_pooled_variance:
  "\<exists>s. math_sqrt (pooled_variance s1 s2) = Inr s"
proof (cases "2 \<le> count s1 \<and> 2 \<le> count s2")
  case True
  then obtain v where "pooled_variance s1 s2 = Num v" "0 \<le> v"
    using pooled_variance_large by blast
  then show ?thesis by simp
next
  case False
  then have "pooled_variance s1 s2 = NaN"
    by (intro pooled_variance_small) auto
  then show ?thesis by simp
qed

lemma cohens_d_value_returns: "\<exists>d. cohens_d_value s1 s2 = Inr d"
  using math_sqrt_pooled_variance [of s1 s2]
  by (auto simp add: cohens_d_value_def Let_def)

lemma calc_cohens_d_returns:
  "\<exists>d. calc_cohens_d lib s1 s2 = Inr (num_to_string lib d, effect_size_label d)"
  using cohens_d_value_returns [of s1 s2]
  by (auto simp add: calc_cohens_d_def)

lemma pf_div_NaN_right: "pf_div x NaN = NaN"
  by (cases x) simp_all

lemma cohens_d_value_small:
  assumes "count s1 < 2 \<or> count s2 < 2"
  shows "cohens_d_value s1 s2 = Inr NaN"
  using pooled_variance_small [OF assms]
  by (simp add: cohens_d_value_def Let_def pf_div_NaN_right)

section \<open>Properties of the size filter\<close>

lemma dropna_map_Some: "\<forall>x\<in>set xs. f x \<noteq> None \<Longrightarrow> length (dropna (map f xs)) = length xs"
proof (induction xs)
  case Nil
  then show ?case by simp
next
  case (Cons x xs)
  then obtain y where "f x = Some y" by auto
  with Cons show ?case by simp
qed

lemma count_sample:
  "count (sample s d m l) = length (filter (\<lambda>r. demographics r d = Some l \<and> notna m r) s)"
  unfolding count_def sample_def
  by (rule dropna_map_Some) (simp add: notna_def)

lemma group_keys_sorted: "sorted (group_keys s d m)" "distinct (group_keys s d m)"
  by (simp_all add: group_keys_def)

lemma set_group_keys:
  "set (group_keys s d m) = {l. \<exists>r\<in>set s. notna m r \<and> demographics r d = Some l}"
proof -
  have "x \<in> (\<lambda>x. the (demographics x d)) `
          {x \<in> set s. notna m x \<and> (\<exists>y. demographics x d = Some y)}"
    if "r \<in> set s" "notna m r" "demographics r d = Some x" for x r
    using that by (intro image_eqI [where x = r]) simp_all
  then show ?thesis
    by (auto simp add: group_keys_def map_filter_def)
qed

lemma group_count_eq:
  "group_count s d m = map (\<lambda>l. (l, count (sample s d m l))) (group_keys s d m)"
proof -
  have "length (filter (\<lambda>r. demographics r d = Some l) (filter (notna m) s)) = count (sample s d m l)" for l
    by (simp add: count_sample conj_commute)
  then show ?thesis
    by (simp add: group_count_def)
qed

lemma categories_eq:
  "categories s d m = filter (\<lambda>l. MAGIC_NUMBER < count (sample s d m l)) (group_keys s d m)"
  by (simp add: categories_def group_count_eq filter_map o_def)

lemma anova_labels_eq: "anova_labels s d m = categories s d m"
  by (simp add: anova_labels_def categories_def Let_def)

lemma excluded_eq:
  "map fst (filter (\<lambda>(label, n). n \<le> MAGIC_NUMBER) (group_count s d m)) =
     filter (\<lambda>l. count (sample s d m l) \<le> MAGIC_NUMBER) (group_keys s d m)"
  by (simp add: group_count_eq filter_map o_def)

lemma categories_sorted: "sorted (categories s d m)" "distinct (categories s d m)"
  by (simp_all add: categories_eq group_keys_sorted sorted_wrt_filter)

lemma set_categories:
  "set (categories s d m) = {l. MAGIC_NUMBER < count (sample s d m l)}"
proof -
  have "l \<in> set (group_keys s d m)" if "MAGIC_NUMBER < count (sample s d m l)" for l
  proof -
    from that have "filter (\<lambda>r. demographics r d = Some l \<and> notna m r) s \<noteq> []"
      by (auto simp add: count_sample)
    then obtain r where "r \<in> set s" "demographics r d = Some l" "notna m r"
      by (auto simp add: filter_empty_conv)
    then show ?thesis by (auto simp add: set_group_keys)
  qed
  then show ?thesis by (auto simp add: categories_eq)
qed

lemma categories_unique:
  assumes "sorted ys" "distinct ys" "set ys = {l. MAGIC_NUMBER < count (sample s d m l)}"
  shows "categories s d m = ys"
  using assms categories_sorted [of s d m] set_categories [of s d m]
  by (intro sorted_distinct_set_unique) simp_all

lemma sample_append:
  "sample (xs @ ys) d m l = sample xs d m l @ sample ys d m l"
  by (simp add: sample_def)

lemma sample_cohort:
  "sample (cohort l' first n v) d m l =
     (if l = l' then filter (\<lambda>x. x \<noteq> None) (map v [first..<first + n]) else [])"
  by (auto simp add: sample_def cohort_def notna_def filter_map o_def)

section \<open>Running the model on concrete inputs\<close>


lemma num_to_string_demo: "num_to_string (demo_lib p) x = demo_format x"
  by (simp add: num_to_string_def demo_lib_def)

lemmas cohens_d_unfold =
  calc_cohens_d_def cohens_d_value_def pooled_variance_def count_def std_def var_def
  mean_def pf_pow2_def pf_sub_def Let_def

lemma mean_Num: "1 \<le> count s \<Longrightarrow> \<exists>a. mean s = Num a"
  by (auto simp add: mean_def count_def Let_def)

section \<open>The effect size calculator against its specification\<close>


text \<open>
  C1. The specification has the label ``Very small'' for every \<open>d \<le> 0.01\<close>. The chain
  of \<^verbatim>\<open>_calc_cohens_d\<close> overwrites its initial ``Very small'' in every branch, and a
  \<open>d\<close> of at most 0.01 falls into the branch \<^verbatim>\<open>d <= 0.5\<close>: two samples with equal
  means, \<open>d = 0\<close>, are labelled ``Medium''.
\<close>

theorem equal_means_labelled_medium:
  "calc_cohens_d lib [Some 1, Some 2] [Some 1, Some 2] = Inr (num_to_string lib (Num 0), ''Medium'')"
  by (simp add: cohens_d_unfold effect_size_label_def)

text \<open>
  C10. Whenever the standardized difference \<open>d\<close> is NaN, \<^verbatim>\<open>_calc_cohens_d\<close> returns
  without raising, and the label it returns is ``Huge'': every comparison of the chain
  is false for NaN, so the final \<^verbatim>\<open>else\<close> is taken. A sample of one element makes
  \<open>d\<close> NaN.
\<close>

theorem nan_difference_labelled_huge:
  "cohens_d_value sample_1 sample_2 = Inr NaN \<Longrightarrow>
   calc_cohens_d lib sample_1 sample_2 = Inr (num_to_string lib NaN, ''Huge'')"
  by (simp add: calc_cohens_d_def effect_size_label_NaN)

theorem nan_difference_labelled_huge_witness:
  "cohens_d_value [Some 5] [Some 1, Some 2] = Inr NaN \<and>
   calc_cohens_d (demo_lib NaN) [Some 5] [Some 1, Some 2] = Inr (''nan'', ''Huge'')"
proof -
  have d: "cohens_d_value [Some 5] [Some 1, Some 2] = Inr NaN"
    by (simp add: cohens_d_value_def pooled_variance_def count_def std_def var_def
        mean_def pf_pow2_def pf_sub_def Let_def)
  show ?thesis
    using d nan_difference_labelled_huge [OF d, of "demo_lib NaN"]
    by (simp add: num_to_string_demo demo_format_def)
qed

text \<open>
  C7. The specification requires a sample of fewer than two elements to be rejected or
  signalled. \<^verbatim>\<open>_calc_cohens_d\<close> has no such check: the one-element sample below goes
  through and comes back with a value and a label.
\<close>

theorem short_sample_not_rejected:
  "count [Some 7] < 2 \<and>
   calc_cohens_d (demo_lib NaN) [Some 7] [Some 1, Some 3] = Inr (''nan'', ''Huge'')"
  by (simp add: cohens_d_unfold effect_size_label_def num_to_string_demo demo_format_def)

text \<open>
  C7, as the code has it: when either sample has fewer than two non-missing elements,
  \<^verbatim>\<open>_calc_cohens_d\<close> raises nothing and returns the formatted NaN with the label
  ``Huge''.
\<close>

theorem short_sample_labelled_huge:
  "count sample_1 < 2 \<or> count sample_2 < 2 \<Longrightarrow>
   calc_cohens_d lib sample_1 sample_2 = Inr (num_to_string lib NaN, ''Huge'')"
  by (simp add: calc_cohens_d_def cohens_d_value_small effect_size_label_NaN)

theorem short_sample_labelled_huge_witness:
  "(count [Some 1, Some 2, Some 4] < 2 \<or> count [] < 2) \<and>
   calc_cohens_d (demo_lib NaN) [Some 1, Some 2, Some 4] [] = Inr (''nan'', ''Huge'')"
proof -
  have c: "count [Some 1, Some 2, Some 4] < 2 \<or> count [] < 2"
    by (simp add: count_def)
  show ?thesis
    using c short_sample_labelled_huge [OF c, of "demo_lib NaN"]
    by (simp add: num_to_string_demo demo_format_def)
qed

text \<open>
  C6. The specification requires an explicit error when the pooled standard deviation
  is zero. \<^verbatim>\<open>_calc_cohens_d\<close> has no check and divides by it: for the samples 1.0, 1.0
  and 1.0, 1.0 the pooled standard deviation it computes is 0.0 and the call returns a
  formatted NaN and a label.
\<close>

theorem zero_pooled_deviation_not_signalled:
  "math_sqrt (pooled_variance [Some 1, Some 1] [Some 1, Some 1]) = Inr (Num 0) \<and>
   calc_cohens_d (demo_lib NaN) [Some 1, Some 1] [Some 1, Some 1] = Inr (''nan'', ''Huge'')"
  by (simp add: cohens_d_unfold effect_size_label_def num_to_string_demo demo_format_def)

lemma pf_div_by_zero:
  "pf_div (pf_abs x) (Num 0) = (if pf_gt (pf_abs x) (Num 0) then PosInf else NaN)"
  by (cases x) simp_all

lemma effect_size_label_div_by_zero:
  "effect_size_label (if c then PosInf else NaN) = ''Huge''"
  by (simp add: effect_size_label_NaN effect_size_label_PosInf)

text \<open>
  C6, as the code has it: \<^verbatim>\<open>_calc_cohens_d\<close> raises no error on any pair of samples. When
  the pooled standard deviation that line 169 computes is exactly 0.0, the division of
  line 170 gives positive infinity if the computed means differ and NaN if they do not,
  and the label is ``Huge'' in both cases.
\<close>

theorem zero_pooled_deviation_no_error:
  "(\<exists>d. calc_cohens_d lib sample_1 sample_2 =
          Inr (num_to_string lib d, effect_size_label d)) \<and>
   (math_sqrt (pooled_variance sample_1 sample_2) = Inr (Num 0) \<longrightarrow>
      calc_cohens_d lib sample_1 sample_2 =
        Inr (num_to_string lib
               (if pf_gt (pf_abs (pf_sub (mean sample_1) (mean sample_2))) (Num 0)
                then PosInf else NaN),
             ''Huge''))"
proof (intro conjI impI)
  show "\<exists>d. calc_cohens_d lib sample_1 sample_2 =
          Inr (num_to_string lib d, effect_size_label d)"
    by (rule calc_cohens_d_returns)
next
  assume "math_sqrt (pooled_variance sample_1 sample_2) = Inr (Num 0)"
  then have "cohens_d_value sample_1 sample_2 =
      Inr (if pf_gt (pf_abs (pf_sub (mean sample_1) (mean sample_2))) (Num 0)
           then PosInf else NaN)"
    by (simp only: cohens_d_value_def Let_def sum.case pf_div_by_zero)
  then show "calc_cohens_d lib sample_1 sample_2 =
        Inr (num_to_string lib
               (if pf_gt (pf_abs (pf_sub (mean sample_1) (mean sample_2))) (Num 0)
                then PosInf else NaN),
             ''Huge'')"
    by (simp only: calc_cohens_d_def sum.case effect_size_label_div_by_zero)
qed

theorem zero_pooled_deviation_no_error_witness:
  "math_sqrt (pooled_variance [Some 1, Some 1] [Some 2, Some 2]) = Inr (Num 0) \<and>
   calc_cohens_d (demo_lib NaN) [Some 1, Some 1] [Some 2, Some 2] = Inr (''inf'', ''Huge'')"
proof -
  have z: "math_sqrt (pooled_variance [Some 1, Some 1] [Some 2, Some 2]) = Inr (Num 0)"
    by (simp add: pooled_variance_def count_def std_def var_def pf_pow2_def Let_def)
  have m: "pf_gt (pf_abs (pf_sub (mean [Some 1, Some 1]) (mean [Some 2, Some 2]))) (Num 0)"
    by (simp add: mean_def pf_sub_def)
  show ?thesis
    using z m zero_pooled_deviation_no_error [of "demo_lib NaN" "[Some 1, Some 1]" "[Some 2, Some 2]"]
    by (simp add: num_to_string_demo demo_format_def)
qed

section \<open>Properties of the engines\<close>

lemma omnibus_no_fallback:
  "omnibus lib sbd = ([Call_f_oneway sbd], snd (f_oneway lib (map snd sbd)))"
  by (simp add: omnibus_def Let_def pf_eq_NaN)

lemma run_t_test_too_few:
  assumes "length (categories s d m) < 2"
  shows "run_t_test lib s d m =
           Inr ([Error_cannot_run_t_test
                   (filter (\<lambda>l. count (sample s d m l) \<le> MAGIC_NUMBER) (group_keys s d m))],
                False)"
  using assms by (simp add: run_t_test_def Let_def excluded_eq)

lemma run_t_test_upheld:
  assumes "2 \<le> length (categories s d m)"
    and "pf_gt (snd (ttest_ind lib (sample s d m (categories s d m ! 0))
                                   (sample s d m (categories s d m ! 1)))) (Num 0.05)"
  shows "run_t_test lib s d m =
           Inr ([Call_ttest_ind (categories s d m ! 0, sample s d m (categories s d m ! 0))
                                (categories s d m ! 1, sample s d m (categories s d m ! 1)),
                 Message_hypothesis m d,
                 Info_upheld (num_to_string lib
                   (snd (ttest_ind lib (sample s d m (categories s d m ! 0))
                                       (sample s d m (categories s d m ! 1))))),
                 Log_dataframe (stats_table lib
                   (categories s d m ! 0) (sample s d m (categories s d m ! 0))
                   (categories s d m ! 1) (sample s d m (categories s d m ! 1)))], True)"
  using assms by (simp add: run_t_test_def Let_def)

lemma run_t_test_rejected:
  assumes "2 \<le> length (categories s d m)"
    and "\<not> pf_gt (snd (ttest_ind lib (sample s d m (categories s d m ! 0))
                                   (sample s d m (categories s d m ! 1)))) (Num 0.05)"
  shows "\<exists>dv. run_t_test lib s d m =
           Inr ([Call_ttest_ind (categories s d m ! 0, sample s d m (categories s d m ! 0))
                                (categories s d m ! 1, sample s d m (categories s d m ! 1)),
                 Message_hypothesis m d,
                 Error_rejected (num_to_string lib
                   (snd (ttest_ind lib (sample s d m (categories s d m ! 0))
                                       (sample s d m (categories s d m ! 1))))),
                 Warning_effect_size (num_to_string lib dv) (effect_size_label dv),
                 Log_dataframe (stats_table lib
                   (categories s d m ! 0) (sample s d m (categories s d m ! 0))
                   (categories s d m ! 1) (sample s d m (categories s d m ! 1)))], True)"
proof -
  obtain dv where "calc_cohens_d lib (sample s d m (categories s d m ! 0))
                     (sample s d m (categories s d m ! 1)) =
                   Inr (num_to_string lib dv, effect_size_label dv)"
    using calc_cohens_d_returns by blast
  with assms show ?thesis
    by (intro exI [of _ dv]) (simp add: run_t_test_def Let_def)
qed

subsection \<open>The loops of the post-hoc table\<close>

lemma stat_by_demographic_lookup:
  assumes "i < length labels"
  shows "map_of (stat_by_demographic s d m labels) (labels ! i) =
           Some (sample s d m (labels ! i))"
proof -
  have "map_of (map (\<lambda>l. (l, sample s d m l)) labels) (labels ! i) =
          Some (sample s d m (labels ! i))"
    using assms by (intro map_of_map_restrict [THEN fun_cong, THEN trans]) (simp_all add: restrict_map_def)
  then show ?thesis
    by (simp add: stat_by_demographic_def)
qed

lemma tukey_inner_rows:
  "\<exists>new. tukey_inner lib labels sbd tukey i js rows = Inr (rows @ new) \<and>
     map (\<lambda>r. (r ! 0, r ! 1, r ! 3)) new =
       map (\<lambda>j. (Label (labels ! i), Label (labels ! j),
                  Str (num_to_string lib (pvalue tukey i j))))
         (filter (\<lambda>j. i < j) js)"
proof (induction js arbitrary: rows)
  case Nil
  then show ?case by simp
next
  case (Cons j js)
  show ?case
  proof (cases "i < j")
    case False
    with Cons.IH [of rows] show ?thesis by (simp add: not_less)
  next
    case True
    obtain dv where e: "calc_cohens_d lib (the (map_of sbd (labels ! i)))
                       (the (map_of sbd (labels ! j))) =
                     Inr (num_to_string lib dv, effect_size_label dv)"
      using calc_cohens_d_returns by blast
    define row where "row =
      [Label (labels ! i), Label (labels ! j),
       Str (num_to_string lib (statistic tukey i j)),
       Str (num_to_string lib (pvalue tukey i j)),
       Str (num_to_string lib (ci_low tukey i j)),
       Str (num_to_string lib (ci_high tukey i j)),
       Tuple (num_to_string lib dv) (effect_size_label dv)]"
    from Cons.IH [of "rows @ [row]"] obtain new where
      new: "tukey_inner lib labels sbd tukey i js (rows @ [row]) = Inr ((rows @ [row]) @ new)"
        "map (\<lambda>r. (r ! 0, r ! 1, r ! 3)) new =
           map (\<lambda>j. (Label (labels ! i), Label (labels ! j),
                      Str (num_to_string lib (pvalue tukey i j))))
             (filter (\<lambda>j. i < j) js)"
      by blast
    have "tukey_inner lib labels sbd tukey i (j # js) rows = Inr (rows @ (row # new))"
      using True e new(1) by (simp add: Let_def row_def)
    moreover have "map (\<lambda>r. (r ! 0, r ! 1, r ! 3)) (row # new) =
           map (\<lambda>j. (Label (labels ! i), Label (labels ! j),
                      Str (num_to_string lib (pvalue tukey i j))))
             (filter (\<lambda>j. i < j) (j # js))"
      using True new(2) by (simp add: row_def)
    ultimately show ?thesis by blast
  qed
qed

lemma tukey_outer_rows:
  "\<exists>new. tukey_outer lib labels sbd tukey is rows = Inr (rows @ new) \<and>
     map (\<lambda>r. (r ! 0, r ! 1, r ! 3)) new =
       map (\<lambda>(i, j). (Label (labels ! i), Label (labels ! j),
                  Str (num_to_string lib (pvalue tukey i j))))
         (filter (\<lambda>(i, j). i < j) (List.product is [0..<length labels]))"
proof (induction "is" arbitrary: rows)
  case Nil
  then show ?case by simp
next
  case (Cons i "is")
  obtain new1 where
    n1: "tukey_inner lib labels sbd tukey i [0..<length labels] rows = Inr (rows @ new1)"
      "map (\<lambda>r. (r ! 0, r ! 1, r ! 3)) new1 =
         map (\<lambda>j. (Label (labels ! i), Label (labels ! j),
                    Str (num_to_string lib (pvalue tukey i j))))
           (filter (\<lambda>j. i < j) [0..<length labels])"
    using tukey_inner_rows by blast
  from Cons.IH [of "rows @ new1"] obtain new2 where
    n2: "tukey_outer lib labels sbd tukey is (rows @ new1) = Inr ((rows @ new1) @ new2)"
      "map (\<lambda>r. (r ! 0, r ! 1, r ! 3)) new2 =
         map (\<lambda>(i, j). (Label (labels ! i), Label (labels ! j),
                    Str (num_to_string lib (pvalue tukey i j))))
           (filter (\<lambda>(i, j). i < j) (List.product is [0..<length labels]))"
    by blast
  have "tukey_outer lib labels sbd tukey (i # is) rows = Inr (rows @ (new1 @ new2))"
    using n1(1) n2(1) by simp
  moreover have "map (\<lambda>r. (r ! 0, r ! 1, r ! 3)) (new1 @ new2) =
       map (\<lambda>(i, j). (Label (labels ! i), Label (labels ! j),
                  Str (num_to_string lib (pvalue tukey i j))))
         (filter (\<lambda>(i, j). i < j) (List.product (i # is) [0..<length labels]))"
    using n1(2) n2(2) by (simp add: filter_map o_def)
  ultimately show ?case by blast
qed








lemma tukey_output_returns: "\<exists>table. tukey_output lib labels sbd = Inr table"
proof -
  obtain new where
    "tukey_outer lib labels sbd (tukey_hsd lib (map snd sbd)) [0..<length labels] [] = Inr new"
    using tukey_outer_rows [of lib labels sbd "tukey_hsd lib (map snd sbd)" "[0..<length labels]" "[]"]
    by auto
  then show ?thesis
    by (simp add: tukey_output_def)
qed


subsection \<open>What each engine does in each case\<close>

lemma length_categories:
  "length (categories s d m) = card {l. MAGIC_NUMBER < count (sample s d m l)}"
  using categories_sorted(2) [of s d m] set_categories [of s d m]
  by (metis distinct_card)

lemma map_fst_stat_by_demographic: "map fst (stat_by_demographic s d m labels) = labels"
  by (simp add: stat_by_demographic_def o_def)

lemma participants_excluded_warning: "participants (excluded_warning s d m @ evs) = participants evs"
  by (simp add: participants_def excluded_warning_def Let_def)

lemma run_anova_too_few:
  assumes "length (categories s d m) < 2"
  shows "run_anova lib s d m = Inr ([Error_cannot_run_anova], False)"
  using assms by (simp add: run_anova_def anova_labels_eq)

lemma run_anova_upheld:
  assumes "2 \<le> length (categories s d m)"
    and "pf_gt (snd (f_oneway lib (map snd (stat_by_demographic s d m (categories s d m))))) (Num 0.05)"
  shows "run_anova lib s d m =
           Inr (excluded_warning s d m @
                [Call_f_oneway (stat_by_demographic s d m (categories s d m)),
                 Message_hypothesis m d,
                 Info_upheld (num_to_string lib
                   (snd (f_oneway lib (map snd (stat_by_demographic s d m (categories s d m))))))],
                True)"
  using assms by (simp add: run_anova_def anova_labels_eq omnibus_no_fallback Let_def)

lemma run_anova_rejected:
  assumes "2 \<le> length (categories s d m)"
    and "\<not> pf_gt (snd (f_oneway lib (map snd (stat_by_demographic s d m (categories s d m))))) (Num 0.05)"
  shows "\<exists>table. tukey_output lib (categories s d m) (stat_by_demographic s d m (categories s d m)) = Inr table \<and>
         run_anova lib s d m =
           Inr (excluded_warning s d m @
                [Call_f_oneway (stat_by_demographic s d m (categories s d m)),
                 Message_hypothesis m d,
                 Error_rejected (num_to_string lib
                   (snd (f_oneway lib (map snd (stat_by_demographic s d m (categories s d m)))))),
                 Call_tukey_hsd (stat_by_demographic s d m (categories s d m)),
                 Log_dataframe table],
                True)"
proof -
  obtain table where
    "tukey_output lib (categories s d m) (stat_by_demographic s d m (categories s d m)) = Inr table"
    using tukey_output_returns by blast
  with assms show ?thesis
    by (simp add: run_anova_def anova_labels_eq omnibus_no_fallback Let_def)
qed

lemma run_anova_executes:
  assumes "2 \<le> length (categories s d m)"
  shows "\<exists>evs. run_anova lib s d m =
           Inr (excluded_warning s d m @
                Call_f_oneway (stat_by_demographic s d m (categories s d m)) # evs, True) \<and>
           participants evs \<subseteq> set (categories s d m) \<and>
           (\<forall>x. Call_kruskal x \<notin> set evs)"
proof (cases "pf_gt (snd (f_oneway lib (map snd (stat_by_demographic s d m (categories s d m))))) (Num 0.05)")
  case True
  show ?thesis
    unfolding run_anova_upheld [OF assms True]
    by (simp add: participants_def)
next
  case False
  from run_anova_rejected [OF assms False] obtain table where
    "run_anova lib s d m =
           Inr (excluded_warning s d m @
                [Call_f_oneway (stat_by_demographic s d m (categories s d m)),
                 Message_hypothesis m d,
                 Error_rejected (num_to_string lib
                   (snd (f_oneway lib (map snd (stat_by_demographic s d m (categories s d m)))))),
                 Call_tukey_hsd (stat_by_demographic s d m (categories s d m)),
                 Log_dataframe table],
                True)"
    by blast
  then show ?thesis
    by (simp add: participants_def map_fst_stat_by_demographic)
qed

lemma run_t_test_executes:
  assumes "2 \<le> length (categories s d m)"
  shows "\<exists>evs. run_t_test lib s d m =
           Inr (Call_ttest_ind (categories s d m ! 0, sample s d m (categories s d m ! 0))
                               (categories s d m ! 1, sample s d m (categories s d m ! 1)) #
                evs @
                [Log_dataframe (stats_table lib
                   (categories s d m ! 0) (sample s d m (categories s d m ! 0))
                   (categories s d m ! 1) (sample s d m (categories s d m ! 1)))], True) \<and>
           participants evs = {}"
proof (cases "pf_gt (snd (ttest_ind lib (sample s d m (categories s d m ! 0))
                                   (sample s d m (categories s d m ! 1)))) (Num 0.05)")
  case True
  show ?thesis
    unfolding run_t_test_upheld [OF assms True]
    by (simp add: participants_def)
next
  case False
  from run_t_test_rejected [OF assms False] obtain dv where
    "run_t_test lib s d m =
           Inr ([Call_ttest_ind (categories s d m ! 0, sample s d m (categories s d m ! 0))
                                (categories s d m ! 1, sample s d m (categories s d m ! 1)),
                 Message_hypothesis m d,
                 Error_rejected (num_to_string lib
                   (snd (ttest_ind lib (sample s d m (categories s d m ! 0))
                                       (sample s d m (categories s d m ! 1))))),
                 Warning_effect_size (num_to_string lib dv) (effect_size_label dv),
                 Log_dataframe (stats_table lib
                   (categories s d m ! 0) (sample s d m (categories s d m ! 0))
                   (categories s d m ! 1) (sample s d m (categories s d m ! 1)))], True)"
    by blast
  then show ?thesis
    by (simp add: participants_def)
qed

lemma participants_Cons: "participants (e # evs) = set (tested_labels e) \<union> participants evs"
  by (simp add: participants_def)

lemma participants_append: "participants (xs @ ys) = participants xs \<union> participants ys"
  by (simp add: participants_def)

lemma participants_Nil: "participants [] = {}"
  by (simp add: participants_def)

section \<open>The engines on the concrete inputs\<close>

lemma sample_cohort_const:
  "sample (cohort l' first n (\<lambda>k. Some c)) d m l = (if l = l' then replicate n (Some c) else [])"
  by (simp add: sample_cohort map_replicate_const)

lemma sample_cohort_none:
  "sample (cohort l' first n (\<lambda>k. None)) d m l = []"
  by (simp add: sample_cohort)

lemma sample_spread_cohort:
  "sample (spread_cohort l' first c) d m l = (if l = l' then spread_sample c else [])"
  by (simp add: spread_cohort_def spread_sample_def sample_append sample_cohort_const)

lemma dropna_append: "dropna (xs @ ys) = dropna xs @ dropna ys"
  by (induction xs rule: dropna.induct) simp_all

lemma dropna_replicate: "dropna (replicate n (Some c)) = replicate n c"
  by (induction n) simp_all

lemma fold_min_replicate: "fold min (replicate n c) x = (if n = 0 then x else min c (x::real))"
  by (induction n arbitrary: x) (auto simp add: min_def)

lemma fold_max_replicate: "fold max (replicate n c) x = (if n = 0 then x else max c (x::real))"
  by (induction n arbitrary: x) (auto simp add: max_def)

lemma dropna_spread_sample:
  "dropna (spread_sample c) = replicate 16 c @ replicate 16 (c + 2) @ [c + 1]"
  by (simp add: spread_sample_def dropna_append dropna_replicate)

lemma count_spread_sample: "count (spread_sample c) = 33"
  by (simp add: count_def dropna_spread_sample)

lemma mean_spread_sample: "mean (spread_sample c) = Num (c + 1)"
  by (simp add: mean_def dropna_spread_sample Let_def sum_list_replicate field_simps)

lemma var_spread_sample: "var (spread_sample c) = Num 1"
  by (simp add: var_def dropna_spread_sample Let_def sum_list_replicate o_def field_simps)

lemma std_spread_sample: "std (spread_sample c) = Num 1"
  by (simp add: std_def var_spread_sample)

lemma smin_spread_sample: "smin (spread_sample c) = Num c"
proof -
  have "dropna (spread_sample c) = c # (replicate 15 c @ replicate 16 (c + 2) @ [c + 1])"
    by (simp add: dropna_spread_sample numeral_eq_Suc)
  then show ?thesis
    by (simp add: smin_def fold_min_replicate del: fold_replicate)
qed

lemma smax_spread_sample: "smax (spread_sample c) = Num (c + 2)"
proof -
  have "dropna (spread_sample c) = c # (replicate 15 c @ replicate 16 (c + 2) @ [c + 1])"
    by (simp add: dropna_spread_sample numeral_eq_Suc)
  then show ?thesis
    by (simp add: smax_def fold_max_replicate del: fold_replicate)
qed

lemma calc_cohens_d_spread:
  "calc_cohens_d lib (spread_sample a) (spread_sample b) =
     Inr (num_to_string lib (Num \<bar>a - b\<bar>), effect_size_label (Num \<bar>a - b\<bar>))"
  by (simp add: calc_cohens_d_def cohens_d_value_def pooled_variance_def count_spread_sample
      std_spread_sample mean_spread_sample pf_pow2_def pf_sub_def Let_def)

lemma count_Nil: "count [] = 0"
  by (simp add: count_def)

lemma count_append: "count (xs @ ys) = count xs + count ys"
  by (simp add: count_def dropna_append)

lemma count_replicate: "count (replicate n (Some c)) = n"
  by (simp add: count_def dropna_replicate)

lemma categories_students_2: "categories students_2 ''Sex'' ''AttendanceRate'' = [''F'', ''M'']"
  by (rule categories_unique)
    (auto simp add: students_2_def sample_append sample_spread_cohort count_spread_sample
      MAGIC_NUMBER_def count_Nil count_append split: if_splits)

lemma categories_students_3: "categories students_3 ''Sex'' ''AttendanceRate'' = [''F'', ''M'', ''X'']"
  by (rule categories_unique)
    (auto simp add: students_3_def students_2_def sample_append sample_spread_cohort count_spread_sample
      MAGIC_NUMBER_def count_Nil count_append split: if_splits)

lemma set_group_keys_count: "set (group_keys s d m) = {l. 0 < count (sample s d m l)}"
  by (auto simp add: set_group_keys count_sample filter_empty_conv length_greater_0_conv
      simp del: length_greater_0_conv)

lemma group_keys_unique:
  assumes "sorted ys" "distinct ys" "set ys = {l. 0 < count (sample s d m l)}"
  shows "group_keys s d m = ys"
  using assms group_keys_sorted [of s d m] set_group_keys_count [of s d m]
  by (intro sorted_distinct_set_unique) simp_all

lemma categories_sorted_list:
  "categories s d m = sorted_list_of_set {l. MAGIC_NUMBER < count (sample s d m l)}"
  using categories_sorted [of s d m] set_categories [of s d m]
  by (metis sorted_list_of_set.idem_if_sorted_distinct)

lemmas sample_simps =
  sample_append sample_spread_cohort sample_cohort_const sample_cohort_none
  count_spread_sample count_Nil count_append count_replicate MAGIC_NUMBER_def

lemma categories_one_eligible: "categories one_eligible ''Sex'' ''AttendanceRate'' = [''X'']"
  by (rule categories_unique) (auto simp add: one_eligible_def sample_simps split: if_splits)

lemma group_keys_one_eligible: "group_keys one_eligible ''Sex'' ''AttendanceRate'' = [''N'', ''X'']"
  by (rule group_keys_unique) (auto simp add: one_eligible_def sample_simps split: if_splits)

lemma categories_students_4: "categories students_4 ''Sex'' ''AttendanceRate'' = [''F'', ''M'', ''X'']"
  by (rule categories_unique)
    (auto simp add: students_4_def students_2_def one_eligible_def sample_simps split: if_splits)

lemma group_keys_students_4:
  "group_keys students_4 ''Sex'' ''AttendanceRate'' = [''F'', ''M'', ''N'', ''X'']"
  by (rule group_keys_unique)
    (auto simp add: students_4_def students_2_def one_eligible_def sample_simps split: if_splits)

lemma categories_constant_groups: "categories constant_groups ''Sex'' ''AttendanceRate'' = [''F'', ''M'']"
  by (rule categories_unique) (auto simp add: constant_groups_def sample_simps split: if_splits)

lemma group_keys_constant_groups: "group_keys constant_groups ''Sex'' ''AttendanceRate'' = [''F'', ''M'']"
  by (rule group_keys_unique) (auto simp add: constant_groups_def sample_simps split: if_splits)

lemma group_keys_students_2: "group_keys students_2 ''Sex'' ''AttendanceRate'' = [''F'', ''M'']"
  by (rule group_keys_unique) (auto simp add: students_2_def sample_simps split: if_splits)


lemma excluded_warning_eq:
  "excluded_warning s d m =
     (if filter (\<lambda>l. count (sample s d m l) \<le> MAGIC_NUMBER) (group_keys s d m) = [] then []
      else [Warning_anova_excluded
              (filter (\<lambda>l. count (sample s d m l) \<le> MAGIC_NUMBER) (group_keys s d m))])"
  unfolding excluded_warning_def Let_def excluded_eq by simp

lemma stats_table_spread:
  "stats_table (demo_lib p) a (spread_sample 0) b (spread_sample 0.5) =
     \<lparr>columns = [''Label'', ''Count'', ''Mean'', ''StD'', ''Min'', ''Max''],
      data = [[Label a, Str ''33.0'', Str ''1.0'', Str ''1.0'', Str ''2.0'', Str ''0.0''],
              [Label b, Str ''33.0'', Str ''1.5'', Str ''1.0'', Str ''2.5'', Str ''0.5'']]\<rparr>"
  by (simp add: stats_table_def describe_def count_spread_sample mean_spread_sample
      std_spread_sample smin_spread_sample smax_spread_sample num_to_string_demo
      demo_format_def Let_def)

lemma column_stats_table:
  "column ''Min'' (stats_table lib a x b y) =
     [Str (num_to_string lib (smax x)), Str (num_to_string lib (smax y))]"
  "column ''Max'' (stats_table lib a x b y) =
     [Str (num_to_string lib (smin x)), Str (num_to_string lib (smin y))]"
  "column ''Count'' (stats_table lib a x b y) =
     [Str (num_to_string lib (Num (real (count x)))), Str (num_to_string lib (Num (real (count y))))]"
  "column ''Mean'' (stats_table lib a x b y) =
     [Str (num_to_string lib (mean x)), Str (num_to_string lib (mean y))]"
  "column ''StD'' (stats_table lib a x b y) =
     [Str (num_to_string lib (std x)), Str (num_to_string lib (std y))]"
  "column ''Label'' (stats_table lib a x b y) = [Label a, Label b]"
  by (simp_all add: column_def stats_table_def describe_def Let_def)

lemma demo_lib_simps:
  "ttest_ind (demo_lib p) a b = (Num 0, p)"
  "f_oneway (demo_lib p) xs = (Num 0, p)"
  "kruskal (demo_lib p) xs = (Num 0, Num 0.5)"
  "tukey_hsd (demo_lib p) xs = demo_tukey"
  by (simp_all add: demo_lib_def)

lemma sample_students_2:
  "sample students_2 ''Sex'' ''AttendanceRate'' ''F'' = spread_sample 0"
  "sample students_2 ''Sex'' ''AttendanceRate'' ''M'' = spread_sample 0.5"
  by (simp_all add: students_2_def sample_simps)

lemma run_t_test_students_2_upheld:
  "run_t_test (demo_lib (Num 0.5)) students_2 ''Sex'' ''AttendanceRate'' =
     Inr ([Call_ttest_ind (''F'', spread_sample 0) (''M'', spread_sample 0.5),
           Message_hypothesis ''AttendanceRate'' ''Sex'',
           Info_upheld ''0.5'',
           Log_dataframe
             \<lparr>columns = [''Label'', ''Count'', ''Mean'', ''StD'', ''Min'', ''Max''],
              data = [[Label ''F'', Str ''33.0'', Str ''1.0'', Str ''1.0'', Str ''2.0'', Str ''0.0''],
                      [Label ''M'', Str ''33.0'', Str ''1.5'', Str ''1.0'', Str ''2.5'', Str ''0.5'']]\<rparr>],
          True)"
proof -
  have "2 \<le> length (categories students_2 ''Sex'' ''AttendanceRate'')"
    by (simp add: categories_students_2)
  moreover have "pf_gt (snd (ttest_ind (demo_lib (Num 0.5)) x y)) (Num 0.05)" for x y
    by (simp add: demo_lib_simps)
  ultimately show ?thesis
    using stats_table_spread [of "Num 0.5" "''F''" "''M''"]
    by (simp add: run_t_test_upheld categories_students_2 sample_students_2 demo_lib_simps
        num_to_string_demo demo_format_def)
qed

lemma sample_one_eligible:
  "count (sample one_eligible ''Sex'' ''AttendanceRate'' ''N'') = 30"
  "count (sample one_eligible ''Sex'' ''AttendanceRate'' ''X'') = 31"
  by (simp_all add: one_eligible_def sample_simps)

lemma run_t_test_one_eligible:
  "run_t_test lib one_eligible ''Sex'' ''AttendanceRate'' =
     Inr ([Error_cannot_run_t_test [''N'']], False)"
  by (simp add: run_t_test_too_few categories_one_eligible group_keys_one_eligible
      sample_one_eligible MAGIC_NUMBER_def)

lemma run_anova_one_eligible:
  "run_anova lib one_eligible ''Sex'' ''AttendanceRate'' = Inr ([Error_cannot_run_anova], False)"
  by (simp add: run_anova_too_few categories_one_eligible)

lemma count_sample_students_2:
  "count (sample students_2 ''Sex'' ''AttendanceRate'' ''F'') = 33"
  "count (sample students_2 ''Sex'' ''AttendanceRate'' ''M'') = 33"
  by (simp_all add: sample_students_2 count_spread_sample)

lemma excluded_warning_students_2:
  "excluded_warning students_2 ''Sex'' ''AttendanceRate'' = []"
  by (simp add: excluded_warning_eq group_keys_students_2 count_sample_students_2 MAGIC_NUMBER_def)

lemma stat_by_demographic_students_2:
  "stat_by_demographic students_2 ''Sex'' ''AttendanceRate'' [''F'', ''M''] =
     [(''F'', spread_sample 0), (''M'', spread_sample 0.5)]"
  by (simp add: stat_by_demographic_def sample_students_2)

lemma run_anova_students_2_upheld:
  "run_anova (demo_lib (Num 0.5)) students_2 ''Sex'' ''AttendanceRate'' =
     Inr ([Call_f_oneway [(''F'', spread_sample 0), (''M'', spread_sample 0.5)],
           Message_hypothesis ''AttendanceRate'' ''Sex'',
           Info_upheld ''0.5''],
          True)"
proof -
  have "2 \<le> length (categories students_2 ''Sex'' ''AttendanceRate'')"
    by (simp add: categories_students_2)
  moreover have "pf_gt (snd (f_oneway (demo_lib (Num 0.5)) xs)) (Num 0.05)" for xs
    by (simp add: demo_lib_simps)
  ultimately show ?thesis
    by (simp add: run_anova_upheld categories_students_2 stat_by_demographic_students_2
        excluded_warning_students_2 demo_lib_simps num_to_string_demo demo_format_def)
qed

lemma card_eligible_one_eligible:
  "card {l. MAGIC_NUMBER < count (sample one_eligible ''Sex'' ''AttendanceRate'' l)} = 1"
  using length_categories [of one_eligible "''Sex''" "''AttendanceRate''"]
  by (simp add: categories_one_eligible)

lemma card_eligible_students_2:
  "card {l. MAGIC_NUMBER < count (sample students_2 ''Sex'' ''AttendanceRate'' l)} = 2"
  using length_categories [of students_2 "''Sex''" "''AttendanceRate''"]
  by (simp add: categories_students_2)

lemma run_t_test_students_2_rejected:
  "run_t_test (demo_lib (Num 0.05)) students_2 ''Sex'' ''AttendanceRate'' =
     Inr ([Call_ttest_ind (''F'', spread_sample 0) (''M'', spread_sample 0.5),
           Message_hypothesis ''AttendanceRate'' ''Sex'',
           Error_rejected ''0.05'',
           Warning_effect_size ''0.5'' ''Medium'',
           Log_dataframe
             \<lparr>columns = [''Label'', ''Count'', ''Mean'', ''StD'', ''Min'', ''Max''],
              data = [[Label ''F'', Str ''33.0'', Str ''1.0'', Str ''1.0'', Str ''2.0'', Str ''0.0''],
                      [Label ''M'', Str ''33.0'', Str ''1.5'', Str ''1.0'', Str ''2.5'', Str ''0.5'']]\<rparr>],
          True)"
  using stats_table_spread [of "Num 0.05" "''F''" "''M''"]
    calc_cohens_d_spread [of "demo_lib (Num 0.05)" 0 "0.5"]
  by (simp add: run_t_test_def categories_students_2 sample_students_2 demo_lib_simps
      num_to_string_demo demo_format_def effect_size_label_Num Let_def)

lemma sample_students_4:
  "sample students_4 ''Sex'' ''AttendanceRate'' ''F'' = spread_sample 0"
  "sample students_4 ''Sex'' ''AttendanceRate'' ''M'' = spread_sample 0.5"
  "sample students_4 ''Sex'' ''AttendanceRate'' ''N'' = replicate 30 (Some 1)"
  "sample students_4 ''Sex'' ''AttendanceRate'' ''X'' = replicate 31 (Some 1)"
  by (simp_all add: students_4_def students_2_def one_eligible_def sample_simps)

lemma run_t_test_students_3_upheld:
  "run_t_test (demo_lib (Num 1)) students_3 ''Sex'' ''AttendanceRate'' =
     Inr ([Call_ttest_ind (''F'', spread_sample 0) (''M'', spread_sample 0.5),
           Message_hypothesis ''AttendanceRate'' ''Sex'',
           Info_upheld ''1.0'',
           Log_dataframe
             \<lparr>columns = [''Label'', ''Count'', ''Mean'', ''StD'', ''Min'', ''Max''],
              data = [[Label ''F'', Str ''33.0'', Str ''1.0'', Str ''1.0'', Str ''2.0'', Str ''0.0''],
                      [Label ''M'', Str ''33.0'', Str ''1.5'', Str ''1.0'', Str ''2.5'', Str ''0.5'']]\<rparr>],
          True)"
proof -
  have s: "sample students_3 ''Sex'' ''AttendanceRate'' ''F'' = spread_sample 0"
    "sample students_3 ''Sex'' ''AttendanceRate'' ''M'' = spread_sample 0.5"
    by (simp_all add: students_3_def students_2_def sample_simps)
  have "2 \<le> length (categories students_3 ''Sex'' ''AttendanceRate'')"
    by (simp add: categories_students_3)
  moreover have "pf_gt (snd (ttest_ind (demo_lib (Num 1)) x y)) (Num 0.05)" for x y
    by (simp add: demo_lib_simps)
  ultimately show ?thesis
    using stats_table_spread [of "Num 1" "''F''" "''M''"]
    by (simp add: run_t_test_upheld categories_students_3 s demo_lib_simps
        num_to_string_demo demo_format_def)
qed

lemma calc_cohens_d_constant:
  "calc_cohens_d lib (replicate 31 (Some 1)) (replicate 31 (Some 1)) =
     Inr (num_to_string lib NaN, ''Huge'')"
  by (simp add: cohens_d_unfold dropna_replicate sum_list_replicate o_def effect_size_label_NaN)

lemma sample_constant_groups:
  "sample constant_groups ''Sex'' ''AttendanceRate'' ''F'' = replicate 31 (Some 1)"
  "sample constant_groups ''Sex'' ''AttendanceRate'' ''M'' = replicate 31 (Some 1)"
  by (simp_all add: constant_groups_def sample_simps)

lemma stat_by_demographic_constant_groups:
  "stat_by_demographic constant_groups ''Sex'' ''AttendanceRate'' [''F'', ''M''] =
     [(''F'', replicate 31 (Some 1)), (''M'', replicate 31 (Some 1))]"
  by (simp add: stat_by_demographic_def sample_constant_groups)

lemma excluded_warning_constant_groups:
  "excluded_warning constant_groups ''Sex'' ''AttendanceRate'' = []"
  by (simp add: excluded_warning_eq group_keys_constant_groups sample_constant_groups
      count_replicate MAGIC_NUMBER_def)

lemma tukey_output_constant_groups:
  "tukey_output (demo_lib p) [''F'', ''M'']
     [(''F'', replicate 31 (Some 1)), (''M'', replicate 31 (Some 1))] =
   Inr \<lparr>columns = [''Label 1'', ''Label 2'', ''Stat'', ''p Value'', ''Low CI'', ''High CI'',
                   ''Effect Size''],
        data = [[Label ''F'', Label ''M'', Str ''0.0'', Str ''0.5'', Str ''0.0'', Str ''0.0'',
                 Tuple ''nan'' ''Huge'']]\<rparr>"
  by (simp add: tukey_output_def sort_values_def calc_cohens_d_constant
      demo_lib_simps demo_tukey_def num_to_string_demo demo_format_def Let_def)

lemma sample_students_3:
  "sample students_3 ''Sex'' ''AttendanceRate'' ''F'' = spread_sample 0"
  "sample students_3 ''Sex'' ''AttendanceRate'' ''M'' = spread_sample 0.5"
  "sample students_3 ''Sex'' ''AttendanceRate'' ''X'' = spread_sample 1"
  by (simp_all add: students_3_def students_2_def sample_simps)





lemma excluded_warning_students_4:
  "excluded_warning students_4 ''Sex'' ''AttendanceRate'' = [Warning_anova_excluded [''N'']]"
  by (simp add: excluded_warning_eq group_keys_students_4 sample_students_4
      count_spread_sample count_replicate MAGIC_NUMBER_def)

lemma stat_by_demographic_students_4:
  "stat_by_demographic students_4 ''Sex'' ''AttendanceRate'' [''F'', ''M'', ''X''] =
     [(''F'', spread_sample 0), (''M'', spread_sample 0.5), (''X'', replicate 31 (Some 1))]"
  by (simp add: stat_by_demographic_def sample_students_4)

lemma run_anova_students_4_upheld:
  "run_anova (demo_lib (Num 0.5)) students_4 ''Sex'' ''AttendanceRate'' =
     Inr ([Warning_anova_excluded [''N''],
           Call_f_oneway
             [(''F'', spread_sample 0), (''M'', spread_sample 0.5),
              (''X'', replicate 31 (Some 1))],
           Message_hypothesis ''AttendanceRate'' ''Sex'',
           Info_upheld ''0.5''],
          True)"
proof -
  have "2 \<le> length (categories students_4 ''Sex'' ''AttendanceRate'')"
    by (simp add: categories_students_4)
  moreover have "pf_gt (snd (f_oneway (demo_lib (Num 0.5)) xs)) (Num 0.05)" for xs
    by (simp add: demo_lib_simps)
  ultimately show ?thesis
    by (simp add: run_anova_upheld categories_students_4 stat_by_demographic_students_4
        excluded_warning_students_4 demo_lib_simps num_to_string_demo demo_format_def)
qed

lemma run_t_test_students_4_upheld:
  "run_t_test (demo_lib (Num 0.5)) students_4 ''Sex'' ''AttendanceRate'' =
     Inr ([Call_ttest_ind (''F'', spread_sample 0) (''M'', spread_sample 0.5),
           Message_hypothesis ''AttendanceRate'' ''Sex'',
           Info_upheld ''0.5'',
           Log_dataframe
             \<lparr>columns = [''Label'', ''Count'', ''Mean'', ''StD'', ''Min'', ''Max''],
              data = [[Label ''F'', Str ''33.0'', Str ''1.0'', Str ''1.0'', Str ''2.0'', Str ''0.0''],
                      [Label ''M'', Str ''33.0'', Str ''1.5'', Str ''1.0'', Str ''2.5'', Str ''0.5'']]\<rparr>],
          True)"
proof -
  have "2 \<le> length (categories students_4 ''Sex'' ''AttendanceRate'')"
    by (simp add: categories_students_4)
  moreover have "pf_gt (snd (ttest_ind (demo_lib (Num 0.5)) x y)) (Num 0.05)" for x y
    by (simp add: demo_lib_simps)
  ultimately show ?thesis
    using stats_table_spread [of "Num 0.5" "''F''" "''M''"]
    by (simp add: run_t_test_upheld categories_students_4 sample_students_4 demo_lib_simps
        num_to_string_demo demo_format_def)
qed






section \<open>The engines against their specification\<close>

text \<open>
  C9. When fewer than two labels have more than \<open>MAGIC_NUMBER\<close> non-missing values,
  both engines return \<open>False\<close> and the only effect is the error message: no test is
  called. When at least two labels do, both engines call their test and return \<open>True\<close>.
\<close>

theorem engines_execute_iff_two_eligible:
  "(card {l. MAGIC_NUMBER < count (sample s d m l)} < 2 \<longrightarrow>
      run_t_test lib s d m =
        Inr ([Error_cannot_run_t_test
                (filter (\<lambda>l. count (sample s d m l) \<le> MAGIC_NUMBER) (group_keys s d m))],
             False) \<and>
      run_anova lib s d m = Inr ([Error_cannot_run_anova], False)) \<and>
   (2 \<le> card {l. MAGIC_NUMBER < count (sample s d m l)} \<longrightarrow>
      (\<exists>evs. run_t_test lib s d m = Inr (evs, True) \<and> (\<exists>a b. Call_ttest_ind a b \<in> set evs)) \<and>
      (\<exists>evs. run_anova lib s d m = Inr (evs, True) \<and> (\<exists>x. Call_f_oneway x \<in> set evs)))"
proof (intro conjI impI)
  assume "card {l. MAGIC_NUMBER < count (sample s d m l)} < 2"
  then have few: "length (categories s d m) < 2"
    by (simp add: length_categories)
  show "run_t_test lib s d m =
        Inr ([Error_cannot_run_t_test
                (filter (\<lambda>l. count (sample s d m l) \<le> MAGIC_NUMBER) (group_keys s d m))],
             False)"
    using few by (rule run_t_test_too_few)
  show "run_anova lib s d m = Inr ([Error_cannot_run_anova], False)"
    using few by (rule run_anova_too_few)
next
  assume "2 \<le> card {l. MAGIC_NUMBER < count (sample s d m l)}"
  then have two: "2 \<le> length (categories s d m)"
    by (simp add: length_categories)
  from run_t_test_executes [OF two, of lib]
  show "\<exists>evs. run_t_test lib s d m = Inr (evs, True) \<and> (\<exists>a b. Call_ttest_ind a b \<in> set evs)"
    by (metis list.set_intros(1))
  from run_anova_executes [OF two, of lib]
  show "\<exists>evs. run_anova lib s d m = Inr (evs, True) \<and> (\<exists>x. Call_f_oneway x \<in> set evs)"
    by (metis in_set_conv_decomp)
qed

theorem engines_execute_iff_two_eligible_witness:
  "card {l. MAGIC_NUMBER < count (sample one_eligible ''Sex'' ''AttendanceRate'' l)} < 2 \<and>
   run_t_test (demo_lib (Num 0.5)) one_eligible ''Sex'' ''AttendanceRate'' =
     Inr ([Error_cannot_run_t_test [''N'']], False) \<and>
   run_anova (demo_lib (Num 0.5)) one_eligible ''Sex'' ''AttendanceRate'' =
     Inr ([Error_cannot_run_anova], False) \<and>
   2 \<le> card {l. MAGIC_NUMBER < count (sample students_2 ''Sex'' ''AttendanceRate'' l)} \<and>
   run_t_test (demo_lib (Num 0.5)) students_2 ''Sex'' ''AttendanceRate'' =
     Inr ([Call_ttest_ind (''F'', spread_sample 0) (''M'', spread_sample 0.5),
           Message_hypothesis ''AttendanceRate'' ''Sex'',
           Info_upheld ''0.5'',
           Log_dataframe
             \<lparr>columns = [''Label'', ''Count'', ''Mean'', ''StD'', ''Min'', ''Max''],
              data = [[Label ''F'', Str ''33.0'', Str ''1.0'', Str ''1.0'', Str ''2.0'', Str ''0.0''],
                      [Label ''M'', Str ''33.0'', Str ''1.5'', Str ''1.0'', Str ''2.5'', Str ''0.5'']]\<rparr>],
          True) \<and>
   run_anova (demo_lib (Num 0.5)) students_2 ''Sex'' ''AttendanceRate'' =
     Inr ([Call_f_oneway [(''F'', spread_sample 0), (''M'', spread_sample 0.5)],
           Message_hypothesis ''AttendanceRate'' ''Sex'',
           Info_upheld ''0.5''],
          True)"
  using engines_execute_iff_two_eligible
      [of one_eligible "''Sex''" "''AttendanceRate''" "demo_lib (Num 0.5)"]
    engines_execute_iff_two_eligible
      [of students_2 "''Sex''" "''AttendanceRate''" "demo_lib (Num 0.5)"]
  by (simp only: card_eligible_one_eligible card_eligible_students_2
      run_t_test_one_eligible run_anova_one_eligible
      run_t_test_students_2_upheld run_anova_students_2_upheld) simp

text \<open>
  C4. The specification treats a p-value of exactly 0.05 as not significant. The test of
  \<^verbatim>\<open>run_t_test\<close> is \<^verbatim>\<open>p_value > 0.05\<close>, which is false at 0.05: the hypothesis is
  rejected and the effect size is reported.
\<close>

theorem p_value_005_rejected_example:
  "snd (ttest_ind (demo_lib (Num 0.05)) (spread_sample 0) (spread_sample 0.5)) = Num 0.05 \<and>
   run_t_test (demo_lib (Num 0.05)) students_2 ''Sex'' ''AttendanceRate'' =
     Inr ([Call_ttest_ind (''F'', spread_sample 0) (''M'', spread_sample 0.5),
           Message_hypothesis ''AttendanceRate'' ''Sex'',
           Error_rejected ''0.05'',
           Warning_effect_size ''0.5'' ''Medium'',
           Log_dataframe
             \<lparr>columns = [''Label'', ''Count'', ''Mean'', ''StD'', ''Min'', ''Max''],
              data = [[Label ''F'', Str ''33.0'', Str ''1.0'', Str ''1.0'', Str ''2.0'', Str ''0.0''],
                      [Label ''M'', Str ''33.0'', Str ''1.5'', Str ''1.0'', Str ''2.5'', Str ''0.5'']]\<rparr>],
          True)"
  by (simp only: run_t_test_students_2_rejected demo_lib_simps snd_conv simp_thms)

text \<open>
  C4, as the code has it: when the two-group engine runs and the p-value is exactly
  0.05, the verdict is the rejection of the null hypothesis, followed by the effect size
  and the descriptive statistics.
\<close>

theorem p_value_005_rejected:
  assumes "2 \<le> length (categories s d m)"
    and "snd (ttest_ind lib (sample s d m (categories s d m ! 0))
                            (sample s d m (categories s d m ! 1))) = Num 0.05"
  shows "\<exists>dv. run_t_test lib s d m =
           Inr ([Call_ttest_ind (categories s d m ! 0, sample s d m (categories s d m ! 0))
                                (categories s d m ! 1, sample s d m (categories s d m ! 1)),
                 Message_hypothesis m d,
                 Error_rejected (num_to_string lib (Num 0.05)),
                 Warning_effect_size (num_to_string lib dv) (effect_size_label dv),
                 Log_dataframe (stats_table lib
                   (categories s d m ! 0) (sample s d m (categories s d m ! 0))
                   (categories s d m ! 1) (sample s d m (categories s d m ! 1)))], True)"
proof -
  have "\<not> pf_gt (snd (ttest_ind lib (sample s d m (categories s d m ! 0))
                                   (sample s d m (categories s d m ! 1)))) (Num 0.05)"
    using assms(2) by simp
  from run_t_test_rejected [OF assms(1) this] show ?thesis
    by (simp only: assms(2))
qed

theorem p_value_005_rejected_witness:
  "2 \<le> length (categories students_4 ''Sex'' ''AttendanceRate'') \<and>
   snd (ttest_ind (demo_lib (Num 0.05))
     (sample students_4 ''Sex'' ''AttendanceRate'' (categories students_4 ''Sex'' ''AttendanceRate'' ! 0))
     (sample students_4 ''Sex'' ''AttendanceRate'' (categories students_4 ''Sex'' ''AttendanceRate'' ! 1)))
     = Num 0.05 \<and>
   run_t_test (demo_lib (Num 0.05)) students_4 ''Sex'' ''AttendanceRate'' =
     Inr ([Call_ttest_ind (''F'', spread_sample 0) (''M'', spread_sample 0.5),
           Message_hypothesis ''AttendanceRate'' ''Sex'',
           Error_rejected ''0.05'',
           Warning_effect_size ''0.5'' ''Medium'',
           Log_dataframe
             \<lparr>columns = [''Label'', ''Count'', ''Mean'', ''StD'', ''Min'', ''Max''],
              data = [[Label ''F'', Str ''33.0'', Str ''1.0'', Str ''1.0'', Str ''2.0'', Str ''0.0''],
                      [Label ''M'', Str ''33.0'', Str ''1.5'', Str ''1.0'', Str ''2.5'', Str ''0.5'']]\<rparr>],
          True)"
proof -
  have two: "2 \<le> length (categories students_4 ''Sex'' ''AttendanceRate'')"
    by (simp add: categories_students_4)
  have p: "snd (ttest_ind (demo_lib (Num 0.05))
     (sample students_4 ''Sex'' ''AttendanceRate'' (categories students_4 ''Sex'' ''AttendanceRate'' ! 0))
     (sample students_4 ''Sex'' ''AttendanceRate'' (categories students_4 ''Sex'' ''AttendanceRate'' ! 1)))
     = Num 0.05"
    by (simp add: demo_lib_simps)
  have e: "calc_cohens_d (demo_lib (Num 0.05)) (spread_sample 0) (spread_sample 0.5) =
      Inr (''0.5'', ''Medium'')"
    using calc_cohens_d_spread [of "demo_lib (Num 0.05)" 0 "0.5"]
    by (simp add: num_to_string_demo demo_format_def effect_size_label_Num)
  from p_value_005_rejected [OF two p] obtain dv where
    r: "run_t_test (demo_lib (Num 0.05)) students_4 ''Sex'' ''AttendanceRate'' =
      Inr ([Call_ttest_ind (''F'', spread_sample 0) (''M'', spread_sample 0.5),
            Message_hypothesis ''AttendanceRate'' ''Sex'',
            Error_rejected (num_to_string (demo_lib (Num 0.05)) (Num 0.05)),
            Warning_effect_size (num_to_string (demo_lib (Num 0.05)) dv) (effect_size_label dv),
            Log_dataframe (stats_table (demo_lib (Num 0.05)) ''F'' (spread_sample 0)
              ''M'' (spread_sample 0.5))], True)"
    by (auto simp add: categories_students_4 sample_students_4)
  have "run_t_test (demo_lib (Num 0.05)) students_4 ''Sex'' ''AttendanceRate'' =
      Inr ([Call_ttest_ind (''F'', spread_sample 0) (''M'', spread_sample 0.5),
            Message_hypothesis ''AttendanceRate'' ''Sex'',
            Error_rejected (num_to_string (demo_lib (Num 0.05)) (Num 0.05)),
            Warning_effect_size ''0.5'' ''Medium'',
            Log_dataframe (stats_table (demo_lib (Num 0.05)) ''F'' (spread_sample 0)
              ''M'' (spread_sample 0.5))], True)"
    using e by (simp add: run_t_test_def categories_students_4 sample_students_4
        demo_lib_simps Let_def)
  then show ?thesis
    using two p r stats_table_spread [of "Num 0.05" "''F''" "''M''"]
    by (simp add: num_to_string_demo demo_format_def)
qed

text \<open>
  C3. The specification has every descriptive statistic under its own column. The
  table of \<^verbatim>\<open>run_t_test\<close> names its last two columns ``Min'' and ``Max'' and fills
  them with \<^verbatim>\<open>max\<close> and \<^verbatim>\<open>min\<close>, in that order: whenever the test runs, significant
  or not, the maximum of each group stands under ``Min'' and the minimum under ``Max''.
\<close>

theorem min_max_columns_swapped:
  assumes "2 \<le> length (categories s d m)"
  shows "\<exists>evs table. run_t_test lib s d m = Inr (evs @ [Log_dataframe table], True) \<and>
     column ''Label'' table = [Label (categories s d m ! 0), Label (categories s d m ! 1)] \<and>
     column ''Min'' table =
       [Str (num_to_string lib (smax (sample s d m (categories s d m ! 0)))),
        Str (num_to_string lib (smax (sample s d m (categories s d m ! 1))))] \<and>
     column ''Max'' table =
       [Str (num_to_string lib (smin (sample s d m (categories s d m ! 0)))),
        Str (num_to_string lib (smin (sample s d m (categories s d m ! 1))))]"
proof -
  from run_t_test_executes [OF assms, of lib] obtain evs where
    r: "run_t_test lib s d m =
       Inr ((Call_ttest_ind (categories s d m ! 0, sample s d m (categories s d m ! 0))
                            (categories s d m ! 1, sample s d m (categories s d m ! 1)) # evs) @
            [Log_dataframe (stats_table lib
               (categories s d m ! 0) (sample s d m (categories s d m ! 0))
               (categories s d m ! 1) (sample s d m (categories s d m ! 1)))], True)"
    by auto
  show ?thesis
    by (rule exI, rule exI, rule conjI, rule r) (simp add: column_stats_table)
qed

theorem min_max_columns_swapped_witness:
  "2 \<le> length (categories students_2 ''Sex'' ''AttendanceRate'') \<and>
   smin (spread_sample 0) = Num 0 \<and> smax (spread_sample 0) = Num 2 \<and>
   smin (spread_sample 0.5) = Num 0.5 \<and> smax (spread_sample 0.5) = Num 2.5 \<and>
   run_t_test (demo_lib (Num 0.5)) students_2 ''Sex'' ''AttendanceRate'' =
     Inr ([Call_ttest_ind (''F'', spread_sample 0) (''M'', spread_sample 0.5),
           Message_hypothesis ''AttendanceRate'' ''Sex'',
           Info_upheld ''0.5''] @
          [Log_dataframe
             \<lparr>columns = [''Label'', ''Count'', ''Mean'', ''StD'', ''Min'', ''Max''],
              data = [[Label ''F'', Str ''33.0'', Str ''1.0'', Str ''1.0'', Str ''2.0'', Str ''0.0''],
                      [Label ''M'', Str ''33.0'', Str ''1.5'', Str ''1.0'', Str ''2.5'', Str ''0.5'']]\<rparr>],
          True) \<and>
   column ''Min''
     \<lparr>columns = [''Label'', ''Count'', ''Mean'', ''StD'', ''Min'', ''Max''],
      data = [[Label ''F'', Str ''33.0'', Str ''1.0'', Str ''1.0'', Str ''2.0'', Str ''0.0''],
              [Label ''M'', Str ''33.0'', Str ''1.5'', Str ''1.0'', Str ''2.5'', Str ''0.5'']]\<rparr> =
     [Str ''2.0'', Str ''2.5''] \<and>
   column ''Max''
     \<lparr>columns = [''Label'', ''Count'', ''Mean'', ''StD'', ''Min'', ''Max''],
      data = [[Label ''F'', Str ''33.0'', Str ''1.0'', Str ''1.0'', Str ''2.0'', Str ''0.0''],
              [Label ''M'', Str ''33.0'', Str ''1.5'', Str ''1.0'', Str ''2.5'', Str ''0.5'']]\<rparr> =
     [Str ''0.0'', Str ''0.5'']"
proof -
  have two: "2 \<le> length (categories students_2 ''Sex'' ''AttendanceRate'')"
    by (simp add: categories_students_2)
  show ?thesis
    using two min_max_columns_swapped [OF two, of "demo_lib (Num 0.5)"]
      smin_spread_sample [of 0] smax_spread_sample [of 0]
      smin_spread_sample [of "0.5"] smax_spread_sample [of "0.5"]
      run_t_test_students_2_upheld
    by (simp add: column_def)
qed

text \<open>
  C2. The specification has the engine detect a NaN p-value of the one-way ANOVA and
  fall back to Kruskal-Wallis. The code tests \<^verbatim>\<open>p_value == NaN\<close>, which is false for
  every double: when the ANOVA returns NaN, no warning is shown and \<^verbatim>\<open>kruskal\<close> is not
  called; the NaN itself is compared with 0.05 and, not being greater, rejects the
  hypothesis.
\<close>

theorem nan_omnibus_no_fallback:
  assumes "2 \<le> length (anova_labels s d m)"
    and "snd (f_oneway lib (map snd (stat_by_demographic s d m (anova_labels s d m)))) = NaN"
  shows "\<exists>table. run_anova lib s d m =
           Inr (excluded_warning s d m @
                [Call_f_oneway (stat_by_demographic s d m (anova_labels s d m)),
                 Message_hypothesis m d,
                 Error_rejected (num_to_string lib NaN),
                 Call_tukey_hsd (stat_by_demographic s d m (anova_labels s d m)),
                 Log_dataframe table],
                True)"
proof -
  have two: "2 \<le> length (categories s d m)"
    using assms(1) by (simp add: anova_labels_eq)
  have p: "snd (f_oneway lib (map snd (stat_by_demographic s d m (categories s d m)))) = NaN"
    using assms(2) by (simp add: anova_labels_eq)
  then have "\<not> pf_gt (snd (f_oneway lib (map snd (stat_by_demographic s d m (categories s d m))))) (Num 0.05)"
    by simp
  from run_anova_rejected [OF two this] show ?thesis
    unfolding anova_labels_eq p by blast
qed

theorem nan_omnibus_no_fallback_witness:
  "2 \<le> length (anova_labels constant_groups ''Sex'' ''AttendanceRate'') \<and>
   snd (f_oneway (demo_lib NaN) (map snd (stat_by_demographic constant_groups ''Sex''
     ''AttendanceRate'' (anova_labels constant_groups ''Sex'' ''AttendanceRate'')))) = NaN \<and>
   run_anova (demo_lib NaN) constant_groups ''Sex'' ''AttendanceRate'' =
     Inr ([Call_f_oneway [(''F'', replicate 31 (Some 1)), (''M'', replicate 31 (Some 1))],
           Message_hypothesis ''AttendanceRate'' ''Sex'',
           Error_rejected ''nan'',
           Call_tukey_hsd [(''F'', replicate 31 (Some 1)), (''M'', replicate 31 (Some 1))],
           Log_dataframe
             \<lparr>columns = [''Label 1'', ''Label 2'', ''Stat'', ''p Value'', ''Low CI'',
                         ''High CI'', ''Effect Size''],
              data = [[Label ''F'', Label ''M'', Str ''0.0'', Str ''0.5'', Str ''0.0'',
                       Str ''0.0'', Tuple ''nan'' ''Huge'']]\<rparr>],
          True)"
proof -
  have two: "2 \<le> length (anova_labels constant_groups ''Sex'' ''AttendanceRate'')"
    by (simp add: anova_labels_eq categories_constant_groups)
  have p: "snd (f_oneway (demo_lib NaN) (map snd (stat_by_demographic constant_groups ''Sex''
     ''AttendanceRate'' (anova_labels constant_groups ''Sex'' ''AttendanceRate'')))) = NaN"
    by (simp add: demo_lib_simps)
  have t: "tukey_output (demo_lib NaN) (anova_labels constant_groups ''Sex'' ''AttendanceRate'')
      (stat_by_demographic constant_groups ''Sex'' ''AttendanceRate''
        (anova_labels constant_groups ''Sex'' ''AttendanceRate'')) =
    Inr \<lparr>columns = [''Label 1'', ''Label 2'', ''Stat'', ''p Value'', ''Low CI'', ''High CI'',
                   ''Effect Size''],
        data = [[Label ''F'', Label ''M'', Str ''0.0'', Str ''0.5'', Str ''0.0'', Str ''0.0'',
                 Tuple ''nan'' ''Huge'']]\<rparr>"
    by (simp only: anova_labels_eq categories_constant_groups
        stat_by_demographic_constant_groups tukey_output_constant_groups)
  have r: "run_anova (demo_lib NaN) constant_groups ''Sex'' ''AttendanceRate'' =
     Inr ([Call_f_oneway [(''F'', replicate 31 (Some 1)), (''M'', replicate 31 (Some 1))],
           Message_hypothesis ''AttendanceRate'' ''Sex'',
           Error_rejected ''nan'',
           Call_tukey_hsd [(''F'', replicate 31 (Some 1)), (''M'', replicate 31 (Some 1))],
           Log_dataframe
             \<lparr>columns = [''Label 1'', ''Label 2'', ''Stat'', ''p Value'', ''Low CI'',
                         ''High CI'', ''Effect Size''],
              data = [[Label ''F'', Label ''M'', Str ''0.0'', Str ''0.5'', Str ''0.0'',
                       Str ''0.0'', Tuple ''nan'' ''Huge'']]\<rparr>],
          True)"
    using t
    by (simp add: run_anova_def omnibus_no_fallback anova_labels_eq categories_constant_groups
        stat_by_demographic_constant_groups excluded_warning_constant_groups demo_lib_simps
        num_to_string_demo demo_format_def Let_def)
  show ?thesis
    using two p r nan_omnibus_no_fallback [OF two p] by simp
qed




text \<open>
  C8. The specification has a label take part in the tests exactly when it has more
  than 30 non-missing values. With three such labels the two-group engine tests the first
  two only: the third has 33 values and is not among the labels whose samples a test
  receives.
\<close>

theorem third_eligible_label_not_tested:
  "MAGIC_NUMBER < count (sample students_3 ''Sex'' ''AttendanceRate'' ''X'') \<and>
   run_t_test (demo_lib (Num 1)) students_3 ''Sex'' ''AttendanceRate'' =
     Inr ([Call_ttest_ind (''F'', spread_sample 0) (''M'', spread_sample 0.5),
           Message_hypothesis ''AttendanceRate'' ''Sex'',
           Info_upheld ''1.0'',
           Log_dataframe
             \<lparr>columns = [''Label'', ''Count'', ''Mean'', ''StD'', ''Min'', ''Max''],
              data = [[Label ''F'', Str ''33.0'', Str ''1.0'', Str ''1.0'', Str ''2.0'', Str ''0.0''],
                      [Label ''M'', Str ''33.0'', Str ''1.5'', Str ''1.0'', Str ''2.5'', Str ''0.5'']]\<rparr>],
          True) \<and>
   ''X'' \<notin> participants
     [Call_ttest_ind (''F'', spread_sample 0) (''M'', spread_sample 0.5),
      Message_hypothesis ''AttendanceRate'' ''Sex'',
      Info_upheld ''1.0'',
      Log_dataframe
        \<lparr>columns = [''Label'', ''Count'', ''Mean'', ''StD'', ''Min'', ''Max''],
         data = [[Label ''F'', Str ''33.0'', Str ''1.0'', Str ''1.0'', Str ''2.0'', Str ''0.0''],
                 [Label ''M'', Str ''33.0'', Str ''1.5'', Str ''1.0'', Str ''2.5'', Str ''0.5'']]\<rparr>]"
  using run_t_test_students_3_upheld
  by (simp add: sample_students_3 count_spread_sample MAGIC_NUMBER_def participants_def)

text \<open>
  C8, as the code has it: when the multi-group engine runs, the labels whose samples its
  tests receive are exactly those with more than \<open>MAGIC_NUMBER\<close> non-missing values;
  when the two-group engine runs, they are the first two of these labels in sorted
  order. In both, a label with exactly 30 values takes no part.
\<close>

theorem participants_are_eligible:
  "(run_anova lib s d m = Inr (evs, True) \<longrightarrow>
      participants evs = {l. MAGIC_NUMBER < count (sample s d m l)}) \<and>
   (run_t_test lib s d m = Inr (evs', True) \<longrightarrow>
      participants evs' =
        set (take 2 (sorted_list_of_set {l. MAGIC_NUMBER < count (sample s d m l)})))"
proof (intro conjI impI)
  assume a: "run_anova lib s d m = Inr (evs, True)"
  have two: "2 \<le> length (categories s d m)"
  proof (rule ccontr)
    assume "\<not> 2 \<le> length (categories s d m)"
    then have "run_anova lib s d m = Inr ([Error_cannot_run_anova], False)"
      by (simp add: run_anova_too_few)
    with a show False by simp
  qed
  from run_anova_executes [OF two, of lib] a obtain rest where
    "evs = excluded_warning s d m @
           Call_f_oneway (stat_by_demographic s d m (categories s d m)) # rest"
    "participants rest \<subseteq> set (categories s d m)"
    by auto
  then have "participants evs = set (categories s d m)"
    by (auto simp add: participants_excluded_warning participants_Cons
        map_fst_stat_by_demographic)
  then show "participants evs = {l. MAGIC_NUMBER < count (sample s d m l)}"
    by (simp add: set_categories)
next
  assume a: "run_t_test lib s d m = Inr (evs', True)"
  have two: "2 \<le> length (categories s d m)"
  proof (rule ccontr)
    assume "\<not> 2 \<le> length (categories s d m)"
    then have "\<exists>x. run_t_test lib s d m = Inr (x, False)"
      by (simp add: run_t_test_too_few)
    with a show False by auto
  qed
  from run_t_test_executes [OF two, of lib] a obtain rest where
    "evs' = Call_ttest_ind (categories s d m ! 0, sample s d m (categories s d m ! 0))
                           (categories s d m ! 1, sample s d m (categories s d m ! 1)) #
            rest @
            [Log_dataframe (stats_table lib
               (categories s d m ! 0) (sample s d m (categories s d m ! 0))
               (categories s d m ! 1) (sample s d m (categories s d m ! 1)))]"
    "participants rest = {}"
    by auto
  then have "participants evs' = {categories s d m ! 0, categories s d m ! 1}"
    by (simp add: participants_Cons participants_append participants_Nil)
  also have "\<dots> = set (take 2 (categories s d m))"
  proof -
    obtain x y zs where "categories s d m = x # y # zs"
      using two by (cases "categories s d m"; cases "tl (categories s d m)") auto
    then show ?thesis by simp
  qed
  finally show "participants evs' =
      set (take 2 (sorted_list_of_set {l. MAGIC_NUMBER < count (sample s d m l)}))"
    by (simp add: categories_sorted_list)
qed

theorem participants_are_eligible_witness:
  "run_anova (demo_lib (Num 0.5)) students_4 ''Sex'' ''AttendanceRate'' =
     Inr ([Warning_anova_excluded [''N''],
           Call_f_oneway
             [(''F'', spread_sample 0), (''M'', spread_sample 0.5),
              (''X'', replicate 31 (Some 1))],
           Message_hypothesis ''AttendanceRate'' ''Sex'',
           Info_upheld ''0.5''],
          True) \<and>
   run_t_test (demo_lib (Num 0.5)) students_4 ''Sex'' ''AttendanceRate'' =
     Inr ([Call_ttest_ind (''F'', spread_sample 0) (''M'', spread_sample 0.5),
           Message_hypothesis ''AttendanceRate'' ''Sex'',
           Info_upheld ''0.5'',
           Log_dataframe
             \<lparr>columns = [''Label'', ''Count'', ''Mean'', ''StD'', ''Min'', ''Max''],
              data = [[Label ''F'', Str ''33.0'', Str ''1.0'', Str ''1.0'', Str ''2.0'', Str ''0.0''],
                      [Label ''M'', Str ''33.0'', Str ''1.5'', Str ''1.0'', Str ''2.5'', Str ''0.5'']]\<rparr>],
          True) \<and>
   {l. MAGIC_NUMBER < count (sample students_4 ''Sex'' ''AttendanceRate'' l)} =
     {''F'', ''M'', ''X''} \<and>
   count (sample students_4 ''Sex'' ''AttendanceRate'' ''N'') = 30 \<and>
   take 2 (sorted_list_of_set
     {l. MAGIC_NUMBER < count (sample students_4 ''Sex'' ''AttendanceRate'' l)}) = [''F'', ''M'']"
proof -
  have e: "{l. MAGIC_NUMBER < count (sample students_4 ''Sex'' ''AttendanceRate'' l)} =
      {''F'', ''M'', ''X''}"
    using set_categories [of students_4 "''Sex''" "''AttendanceRate''"]
    by (simp add: categories_students_4)
  have t: "take 2 (sorted_list_of_set
      {l. MAGIC_NUMBER < count (sample students_4 ''Sex'' ''AttendanceRate'' l)}) = [''F'', ''M'']"
    using categories_sorted_list [of students_4 "''Sex''" "''AttendanceRate''", symmetric]
    by (simp only: categories_students_4) simp
  have n: "count (sample students_4 ''Sex'' ''AttendanceRate'' ''N'') = 30"
    by (simp add: sample_students_4 count_replicate)
  show ?thesis
    using participants_are_eligible
      [of "demo_lib (Num 0.5)" students_4 "''Sex''" "''AttendanceRate''"
        "[Warning_anova_excluded [''N''],
           Call_f_oneway
             [(''F'', spread_sample 0), (''M'', spread_sample 0.5),
              (''X'', replicate 31 (Some 1))],
           Message_hypothesis ''AttendanceRate'' ''Sex'',
           Info_upheld ''0.5'']"
        "[Call_ttest_ind (''F'', spread_sample 0) (''M'', spread_sample 0.5),
           Message_hypothesis ''AttendanceRate'' ''Sex'',
           Info_upheld ''0.5'',
           Log_dataframe
             \<lparr>columns = [''Label'', ''Count'', ''Mean'', ''StD'', ''Min'', ''Max''],
              data = [[Label ''F'', Str ''33.0'', Str ''1.0'', Str ''1.0'', Str ''2.0'', Str ''0.0''],
                      [Label ''M'', Str ''33.0'', Str ''1.5'', Str ''1.0'', Str ''2.5'', Str ''0.5'']]\<rparr>]"]
      run_anova_students_4_upheld run_t_test_students_4_upheld e t n
    by simp
qed

end
